theory Spec2Isabelle
  imports Main "HOL-Library.Sublist"
begin

section \<open>Aborts\<close>

text \<open>
  The C++ code does not return error values: a failed \<^verbatim>\<open>always_assert\<close> aborts the
  process and a dereferenced null pointer is undefined behaviour (a crash in practice).
  Both are results of the model, so that every path of the source is a branch here.
  An assertion failure carries its message.
\<close>

datatype error = AssertionFailure string | NullPointerDereference

section \<open>The Dex data model the resolver works on\<close>

text \<open>
  Modelled from the spec: the declarations of \<^verbatim>\<open>DexType\<close>, \<^verbatim>\<open>DexClass\<close>,
  \<^verbatim>\<open>DexMethodRef\<close> and \<^verbatim>\<open>DexFieldRef\<close> (DexClass.h is not among the sources). The
  records hold what the resolver reads of them: the owner, name and type or prototype
  of a member, and the bits behind \<^verbatim>\<open>is_def()\<close>, \<^verbatim>\<open>is_external()\<close>, \<^verbatim>\<open>is_final\<close>,
  \<^verbatim>\<open>is_public\<close> and \<^verbatim>\<open>is_interface\<close>.

  Types, classes, method and field references are interned objects in Redex and are
  compared by pointer. A \<^verbatim>\<open>DexType*\<close> is modelled by its descriptor; a
  \<^verbatim>\<open>DexMethodRef*\<close> or \<^verbatim>\<open>DexFieldRef*\<close> by the record of what the resolver reads
  through the pointer; a null pointer by \<open>None\<close>. The bits are fields of the records,
  independent of each other as they are in the C++ objects: the resolver itself tests
  the external bit of a member and the external bit of its class separately.
\<close>

type_synonym DexType = string
type_synonym reg_t = nat

record DexClass =
  cls_is_external :: bool
  cls_is_public :: bool
  cls_is_interface :: bool

text \<open>
  Modelled from the spec: \<^verbatim>\<open>type_class\<close> and \<^verbatim>\<open>set_public\<close> (declared in headers that
  are not among the sources). \<^verbatim>\<open>type_class(t)\<close> looks a type up in the global class
  table and returns null when the type has no class definition (the name has a prime
  here because \<open>type_class\<close> is a reserved word). The table is the only shared state
  the resolver writes, with \<^verbatim>\<open>set_public\<close>, which promotes one class and is
  idempotent; so the table is threaded through the functions that write it.
\<close>

type_synonym class_table = "DexType \<rightharpoonup> DexClass"

definition type_class' :: "class_table \<Rightarrow> DexType \<Rightarrow> DexClass option" where
  "type_class' tbl t = tbl t"

text \<open>\<^verbatim>\<open>set_public(cls)\<close> for the class object stored under type \<open>t\<close>.\<close>

definition set_public :: "class_table \<Rightarrow> DexType \<Rightarrow> class_table" where
  "set_public tbl t =
     (case tbl t of None \<Rightarrow> tbl | Some c \<Rightarrow> tbl(t \<mapsto> c\<lparr>cls_is_public := True\<rparr>))"

text \<open>
  A non-null \<^verbatim>\<open>DexClass*\<close> handed to the hierarchy lookups is identified by the type it
  is stored under.
\<close>

definition class_ptr :: "class_table \<Rightarrow> DexType \<Rightarrow> DexType option" where
  "class_ptr tbl t = (case type_class' tbl t of None \<Rightarrow> None | Some c \<Rightarrow> Some t)"

record DexMethodRef =
  method_class :: DexType
  method_name :: string
  method_proto :: string
  method_is_def :: bool
  method_is_external :: bool
  method_is_final :: bool

record DexFieldRef =
  field_class :: DexType
  field_name :: string
  field_type :: DexType
  field_is_def :: bool
  field_is_external :: bool

text \<open>
  Modelled from the spec: the enumerations \<^verbatim>\<open>MethodSearch\<close>, \<^verbatim>\<open>FieldSearch\<close> and
  \<^verbatim>\<open>IROpcode\<close> and the opcode tests (Resolver.h and IROpcode.h are not among the
  sources). The opcodes are the ones the resolver names and a few of the others:
  every opcode the resolver does not name takes the \<^verbatim>\<open>default\<close> arm of its switch and
  fails its opcode tests.
\<close>

datatype MethodSearch =
    MethodSearch_Direct | MethodSearch_Static | MethodSearch_Virtual
  | MethodSearch_Super | MethodSearch_Any | MethodSearch_Interface

datatype FieldSearch = FieldSearch_Static | FieldSearch_Instance | FieldSearch_Any

datatype IROpcode =
    OPCODE_NOP | OPCODE_CONST | OPCODE_MOVE_OBJECT | OPCODE_CHECK_CAST
  | OPCODE_RETURN_VOID | OPCODE_RETURN_OBJECT
  | OPCODE_INVOKE_VIRTUAL | OPCODE_INVOKE_SUPER | OPCODE_INVOKE_DIRECT
  | OPCODE_INVOKE_STATIC | OPCODE_INVOKE_INTERFACE
  | OPCODE_SGET | OPCODE_SGET_WIDE | OPCODE_SGET_OBJECT | OPCODE_SGET_BOOLEAN
  | OPCODE_SGET_BYTE | OPCODE_SGET_CHAR | OPCODE_SGET_SHORT
  | OPCODE_SPUT | OPCODE_SPUT_WIDE | OPCODE_SPUT_OBJECT | OPCODE_SPUT_BOOLEAN
  | OPCODE_SPUT_BYTE | OPCODE_SPUT_CHAR | OPCODE_SPUT_SHORT
  | OPCODE_IGET | OPCODE_IGET_WIDE | OPCODE_IGET_OBJECT | OPCODE_IGET_BOOLEAN
  | OPCODE_IGET_BYTE | OPCODE_IGET_CHAR | OPCODE_IGET_SHORT
  | OPCODE_IPUT | OPCODE_IPUT_WIDE | OPCODE_IPUT_OBJECT | OPCODE_IPUT_BOOLEAN
  | OPCODE_IPUT_BYTE | OPCODE_IPUT_CHAR | OPCODE_IPUT_SHORT

definition is_invoke_super :: "IROpcode \<Rightarrow> bool" where
  "is_invoke_super op = (op = OPCODE_INVOKE_SUPER)"

definition is_invoke_virtual :: "IROpcode \<Rightarrow> bool" where
  "is_invoke_virtual op = (op = OPCODE_INVOKE_VIRTUAL)"

definition is_invoke_interface :: "IROpcode \<Rightarrow> bool" where
  "is_invoke_interface op = (op = OPCODE_INVOKE_INTERFACE)"

definition is_return_object :: "IROpcode \<Rightarrow> bool" where
  "is_return_object op = (op = OPCODE_RETURN_OBJECT)"

text \<open>
  Modelled from the spec: \<^verbatim>\<open>IRInstruction\<close> (IRInstruction.h is not among the
  sources). An instruction is its opcode, its source registers and its field or method
  reference. In the C++ the two references share a union and the opcode says which one
  is there; \<^verbatim>\<open>has_method()\<close> is a test of the opcode, true of the invoke opcodes.
\<close>

record IRInstruction =
  insn_opcode :: IROpcode
  insn_srcs :: "reg_t list"
  insn_method :: DexMethodRef
  insn_field :: DexFieldRef

definition has_method :: "IRInstruction \<Rightarrow> bool" where
  "has_method insn =
     (insn_opcode insn \<in> {OPCODE_INVOKE_VIRTUAL, OPCODE_INVOKE_SUPER, OPCODE_INVOKE_DIRECT,
                          OPCODE_INVOKE_STATIC, OPCODE_INVOKE_INTERFACE})"

text \<open>
  Modelled from the spec: \<^verbatim>\<open>IRInstruction::src(i)\<close>. An out-of-bounds register access
  in the IR is a fatal condition that aborts the process, never an unspecified read.
\<close>

definition src :: "IRInstruction \<Rightarrow> nat \<Rightarrow> error + reg_t" where
  "src insn i =
     (if i < length (insn_srcs insn) then Inr (insn_srcs insn ! i)
      else Inl (AssertionFailure ''i < srcs_size()''))"

section \<open>Counters\<close>

text \<open>
  \<^verbatim>\<open>RefStats\<close>. The counters are \<^verbatim>\<open>size_t\<close>; each counts instructions of the program in
  memory, so none can wrap, and they are natural numbers here. The return type
  candidates are a value of a type \<open>'c\<close> the resolver only hands on.
\<close>

record 'c RefStats =
  num_mref_resolved :: nat
  num_fref_resolved :: nat
  num_invoke_virtual_refined :: nat
  num_invoke_interface_replaced :: nat
  num_invoke_super_removed :: nat
  rtype_candidates :: 'c

section \<open>What the resolver consumes\<close>

text \<open>
  The type environments type inference computed for one method: the map
  \<^verbatim>\<open>envs\<close> from an instruction to its entry environment, keyed here by the position of
  the instruction in the method's code (the map is keyed by instruction identity, and
  inference fills it for every instruction of the code). \<open>'d\<close> is \<^verbatim>\<open>DexTypeDomain\<close>.
\<close>

record 'd TypeEnvironments =
  get_dex_type :: "nat \<Rightarrow> reg_t \<Rightarrow> DexType option"
  get_type_domain :: "nat \<Rightarrow> reg_t \<Rightarrow> 'd"

text \<open>
  The class hierarchy's lookups, the accessibility test, the printer of method names,
  type inference and the return type collector are not part of the resolver: they are
  parameters of the model, and every theorem holds for all of them. None of them reads
  the visibility bit the resolver writes.

  \<^item> \<open>resolve_method H mref search caller\<close> is \<^verbatim>\<open>resolve_method(mref, search, caller)\<close>;
  \<^item> \<open>resolve_method_cls H cls name proto search\<close> is the overload that starts at a class
    pointer, which may be null;
  \<^item> \<open>resolve_method_ref H cls name proto search\<close> is \<^verbatim>\<open>resolve_method_ref\<close>, called with
    a class pointer known to be non-null.
\<close>

record ('d, 'c) Hierarchy =
  resolve_field :: "DexFieldRef \<Rightarrow> FieldSearch \<Rightarrow> DexFieldRef option"
  resolve_method :: "DexMethodRef \<Rightarrow> MethodSearch \<Rightarrow> DexMethodRef \<Rightarrow> DexMethodRef option"
  resolve_method_cls ::
    "DexType option \<Rightarrow> string \<Rightarrow> string \<Rightarrow> MethodSearch \<Rightarrow> DexMethodRef option"
  resolve_method_ref ::
    "DexType \<Rightarrow> string \<Rightarrow> string \<Rightarrow> MethodSearch \<Rightarrow> DexMethodRef option"
  opcode_to_search :: "IRInstruction \<Rightarrow> MethodSearch"
  can_access :: "DexMethodRef \<Rightarrow> DexMethodRef \<Rightarrow> bool"
  show_method :: "DexMethodRef \<Rightarrow> string"
  is_support_lib_type :: "DexType \<Rightarrow> bool"
  type_inference :: "DexMethodRef \<Rightarrow> IRInstruction list \<Rightarrow> 'd TypeEnvironments"
  rtype_domain_bottom :: 'd
  rtype_candidates_empty :: 'c
  rtype_candidates_add :: "'c \<Rightarrow> 'c \<Rightarrow> 'c"
  rtype_candidates_size :: "'c \<Rightarrow> nat"
  collect_inferred_rtype :: "'c \<Rightarrow> DexMethodRef \<Rightarrow> 'd \<Rightarrow> 'd \<Rightarrow> 'c \<times> 'd"
  collect_specializable_rtype :: "'c \<Rightarrow> DexMethodRef \<Rightarrow> 'd \<Rightarrow> 'c"

text \<open>
  The configuration of the pass. \<^verbatim>\<open>m_min_sdk_api\<close> is a pointer to the API surface of
  the minimum SDK, whose \<^verbatim>\<open>has_method\<close> is a membership test; the pointer can be null.
\<close>

record ResolveRefsPass =
  m_refine_to_external :: bool
  m_desuperify :: bool
  m_specialize_rtype :: bool
  m_excluded_externals :: "string list"
  m_min_sdk_api :: "(DexMethodRef \<Rightarrow> bool) option"

text \<open>\<^verbatim>\<open>m_min_sdk_api->has_method(m)\<close>.\<close>

definition min_sdk_has_method :: "ResolveRefsPass \<Rightarrow> DexMethodRef \<Rightarrow> error + bool" where
  "min_sdk_has_method P m =
     (case m_min_sdk_api P of None \<Rightarrow> Inl NullPointerDereference | Some api \<Rightarrow> Inr (api m))"

section \<open>Field references\<close>

text \<open>
  \<^verbatim>\<open>resolve_field_refs(insn, field_search, stats)\<close>. The instruction, the counters and
  the class table are what it may change.
\<close>

definition resolve_field_refs ::
  "('d, 'c) Hierarchy \<Rightarrow> FieldSearch \<Rightarrow> IRInstruction \<Rightarrow> 'c RefStats \<Rightarrow> class_table
    \<Rightarrow> error + (IRInstruction \<times> 'c RefStats \<times> class_table)" where
  "resolve_field_refs H field_search insn stats tbl =
     (let fref = insn_field insn in
      if field_is_def fref then Inr (insn, stats, tbl)
      else
        (case resolve_field H fref field_search of
           None \<Rightarrow> Inr (insn, stats, tbl)
         | Some real_ref \<Rightarrow>
             if \<not> field_is_external real_ref \<and> real_ref \<noteq> fref then
               (let insn' = insn\<lparr>insn_field := real_ref\<rparr>;
                    stats' = stats\<lparr>num_fref_resolved := num_fref_resolved stats + 1\<rparr>
                in case type_class' tbl (field_class real_ref) of
                     None \<Rightarrow> Inl (AssertionFailure ''cls != nullptr'')
                   | Some cls \<Rightarrow>
                       if \<not> cls_is_public cls then
                         (if cls_is_external cls then Inr (insn', stats', tbl)
                          else Inr (insn', stats', set_public tbl (field_class real_ref)))
                       else Inr (insn', stats', tbl))
             else Inr (insn, stats, tbl)))"

section \<open>Desuperification\<close>

text \<open>\<^verbatim>\<open>try_desuperify(caller, insn, stats)\<close>.\<close>

definition try_desuperify ::
  "('d, 'c) Hierarchy \<Rightarrow> class_table \<Rightarrow> DexMethodRef \<Rightarrow> IRInstruction \<Rightarrow> 'c RefStats
    \<Rightarrow> IRInstruction \<times> 'c RefStats" where
  "try_desuperify H tbl caller insn stats =
     (if \<not> is_invoke_super (insn_opcode insn) then (insn, stats)
      else
        (case type_class' tbl (method_class caller) of
           None \<Rightarrow> (insn, stats)
         | Some cls \<Rightarrow>
             (case type_class' tbl (method_class (insn_method insn)) of
                None \<Rightarrow> (insn, stats)
              | Some callee_cls \<Rightarrow>
                  if cls_is_interface callee_cls then (insn, stats)
                  else
                    (case resolve_method_ref H (method_class caller)
                            (method_name (insn_method insn)) (method_proto (insn_method insn))
                            MethodSearch_Virtual of
                       None \<Rightarrow> (insn, stats)
                     | Some callee \<Rightarrow>
                         if method_is_external callee \<or> \<not> method_is_final callee
                         then (insn, stats)
                         else (insn\<lparr>insn_opcode := OPCODE_INVOKE_VIRTUAL\<rparr>,
                               stats\<lparr>num_invoke_super_removed :=
                                        num_invoke_super_removed stats + 1\<rparr>)))))"

section \<open>Virtual call refinement: the inferred target\<close>

text \<open>\<^verbatim>\<open>boost::starts_with(name, excluded)\<close> is \<open>prefix excluded name\<close>.\<close>

fun is_excluded_external :: "string list \<Rightarrow> string \<Rightarrow> bool" where
  "is_excluded_external [] name = False"
| "is_excluded_external (excluded # rest) name =
     (if prefix excluded name then True else is_excluded_external rest name)"

definition get_inferred_method_def ::
  "('d, 'c) Hierarchy \<Rightarrow> class_table \<Rightarrow> DexMethodRef \<Rightarrow> string list \<Rightarrow> bool
    \<Rightarrow> DexMethodRef \<Rightarrow> DexType \<Rightarrow> DexMethodRef option" where
  "get_inferred_method_def H tbl caller excluded_externals is_support_lib callee inferred_type =
     (let inferred_cls = class_ptr tbl inferred_type in
      case resolve_method_cls H inferred_cls (method_name callee) (method_proto callee)
             MethodSearch_Virtual of
        None \<Rightarrow> None
      | Some resolved \<Rightarrow>
          if \<not> method_is_def resolved then None
          else
            (let resolved_cls = type_class' tbl (method_class resolved);
                 is_external =
                   (case resolved_cls of None \<Rightarrow> False | Some c \<Rightarrow> cls_is_external c)
             in if is_external
                   \<and> is_excluded_external excluded_externals (show_method H resolved)
                then None
                else if \<not> can_access H caller resolved then None
                else Some resolved))"

section \<open>Method references\<close>

text \<open>
  \<^verbatim>\<open>ResolveRefsPass::resolve_method_refs(caller, insn, stats)\<close>. After the gates on
  external definitions the code looks up the owning class. The early return needs a
  non-null class; with a null class the next statement,
  \<^verbatim>\<open>redex_assert(cls != nullptr || !cls->is_external())\<close>, evaluates its second
  disjunct on the null pointer, and so does \<^verbatim>\<open>is_public(cls)\<close> after it.
\<close>

definition resolve_method_refs ::
  "('d, 'c) Hierarchy \<Rightarrow> ResolveRefsPass \<Rightarrow> DexMethodRef \<Rightarrow> IRInstruction \<Rightarrow> 'c RefStats
    \<Rightarrow> class_table \<Rightarrow> error + (IRInstruction \<times> 'c RefStats \<times> class_table)" where
  "resolve_method_refs H P caller insn stats tbl =
     (if \<not> has_method insn then Inl (AssertionFailure ''insn->has_method()'')
      else
        (let mref = insn_method insn in
         case resolve_method H mref (opcode_to_search H insn) caller of
           None \<Rightarrow> Inr (insn, stats, tbl)
         | Some mdef \<Rightarrow>
             if mdef = mref then Inr (insn, stats, tbl)
             else
               (let rewrite =
                      (case type_class' tbl (method_class mdef) of
                         None \<Rightarrow> Inl NullPointerDereference
                       | Some cls \<Rightarrow>
                           if cls_is_external cls \<and> \<not> cls_is_public cls
                           then Inr (insn, stats, tbl)
                           else
                             Inr (insn\<lparr>insn_method := mdef\<rparr>,
                                  stats\<lparr>num_mref_resolved := num_mref_resolved stats + 1\<rparr>,
                                  if \<not> cls_is_public cls
                                  then set_public tbl (method_class mdef) else tbl))
                in if \<not> m_refine_to_external P \<and> method_is_external mdef
                   then Inr (insn, stats, tbl)
                   else if method_is_external mdef then
                     (case min_sdk_has_method P mdef of
                        Inl e \<Rightarrow> Inl e
                      | Inr present \<Rightarrow> if \<not> present then Inr (insn, stats, tbl) else rewrite)
                   else rewrite)))"

section \<open>The first walk over a method: \<^verbatim>\<open>resolve_refs\<close>\<close>

text \<open>
  A \<^verbatim>\<open>DexMethod\<close> that is walked: what the resolver reads of the method itself, and its
  code (the instructions of \<^verbatim>\<open>InstructionIterable\<close>, in order), absent for a method
  without a body. A \<^verbatim>\<open>DexMethod*\<close> compared with or stored as a reference is its
  \<open>method_ref\<close>.
\<close>

record DexMethod =
  method_ref :: DexMethodRef
  get_code :: "IRInstruction list option"

text \<open>The arms of the switch over the opcode in \<^verbatim>\<open>resolve_refs\<close>.\<close>

datatype switch_arm = Arm_invoke | Arm_static_field | Arm_instance_field | Arm_default

fun resolve_refs_arm :: "IROpcode \<Rightarrow> switch_arm" where
  "resolve_refs_arm OPCODE_INVOKE_VIRTUAL = Arm_invoke"
| "resolve_refs_arm OPCODE_INVOKE_SUPER = Arm_invoke"
| "resolve_refs_arm OPCODE_INVOKE_INTERFACE = Arm_invoke"
| "resolve_refs_arm OPCODE_INVOKE_STATIC = Arm_invoke"
| "resolve_refs_arm OPCODE_SGET = Arm_static_field"
| "resolve_refs_arm OPCODE_SGET_WIDE = Arm_static_field"
| "resolve_refs_arm OPCODE_SGET_OBJECT = Arm_static_field"
| "resolve_refs_arm OPCODE_SGET_BOOLEAN = Arm_static_field"
| "resolve_refs_arm OPCODE_SGET_BYTE = Arm_static_field"
| "resolve_refs_arm OPCODE_SGET_CHAR = Arm_static_field"
| "resolve_refs_arm OPCODE_SGET_SHORT = Arm_static_field"
| "resolve_refs_arm OPCODE_SPUT = Arm_static_field"
| "resolve_refs_arm OPCODE_SPUT_WIDE = Arm_static_field"
| "resolve_refs_arm OPCODE_SPUT_OBJECT = Arm_static_field"
| "resolve_refs_arm OPCODE_SPUT_BOOLEAN = Arm_static_field"
| "resolve_refs_arm OPCODE_SPUT_BYTE = Arm_static_field"
| "resolve_refs_arm OPCODE_SPUT_CHAR = Arm_static_field"
| "resolve_refs_arm OPCODE_SPUT_SHORT = Arm_static_field"
| "resolve_refs_arm OPCODE_IGET = Arm_instance_field"
| "resolve_refs_arm OPCODE_IGET_WIDE = Arm_instance_field"
| "resolve_refs_arm OPCODE_IGET_OBJECT = Arm_instance_field"
| "resolve_refs_arm OPCODE_IGET_BOOLEAN = Arm_instance_field"
| "resolve_refs_arm OPCODE_IGET_BYTE = Arm_instance_field"
| "resolve_refs_arm OPCODE_IGET_CHAR = Arm_instance_field"
| "resolve_refs_arm OPCODE_IGET_SHORT = Arm_instance_field"
| "resolve_refs_arm OPCODE_IPUT = Arm_instance_field"
| "resolve_refs_arm OPCODE_IPUT_WIDE = Arm_instance_field"
| "resolve_refs_arm OPCODE_IPUT_OBJECT = Arm_instance_field"
| "resolve_refs_arm OPCODE_IPUT_BOOLEAN = Arm_instance_field"
| "resolve_refs_arm OPCODE_IPUT_BYTE = Arm_instance_field"
| "resolve_refs_arm OPCODE_IPUT_CHAR = Arm_instance_field"
| "resolve_refs_arm OPCODE_IPUT_SHORT = Arm_instance_field"
| "resolve_refs_arm _ = Arm_default"

text \<open>The body of the loop of \<^verbatim>\<open>resolve_refs\<close> for one instruction.\<close>

definition resolve_refs_insn ::
  "('d, 'c) Hierarchy \<Rightarrow> ResolveRefsPass \<Rightarrow> DexMethodRef \<Rightarrow> IRInstruction \<Rightarrow> 'c RefStats
    \<Rightarrow> class_table \<Rightarrow> error + (IRInstruction \<times> 'c RefStats \<times> class_table)" where
  "resolve_refs_insn H P caller insn stats tbl =
     (case resolve_refs_arm (insn_opcode insn) of
        Arm_invoke \<Rightarrow> resolve_method_refs H P caller insn stats tbl
      | Arm_static_field \<Rightarrow> resolve_field_refs H FieldSearch_Static insn stats tbl
      | Arm_instance_field \<Rightarrow> resolve_field_refs H FieldSearch_Instance insn stats tbl
      | Arm_default \<Rightarrow> Inr (insn, stats, tbl))"

fun resolve_refs_loop ::
  "('d, 'c) Hierarchy \<Rightarrow> ResolveRefsPass \<Rightarrow> DexMethodRef \<Rightarrow> IRInstruction list \<Rightarrow> 'c RefStats
    \<Rightarrow> class_table \<Rightarrow> error + (IRInstruction list \<times> 'c RefStats \<times> class_table)" where
  "resolve_refs_loop H P caller [] stats tbl = Inr ([], stats, tbl)"
| "resolve_refs_loop H P caller (insn # rest) stats tbl =
     (case resolve_refs_insn H P caller insn stats tbl of
        Inl e \<Rightarrow> Inl e
      | Inr (insn', stats', tbl') \<Rightarrow>
          (case resolve_refs_loop H P caller rest stats' tbl' of
             Inl e \<Rightarrow> Inl e
           | Inr (rest', stats'', tbl'') \<Rightarrow> Inr (insn' # rest', stats'', tbl'')))"

text \<open>A default-constructed \<^verbatim>\<open>RefStats\<close>.\<close>

definition RefStats_init :: "('d, 'c) Hierarchy \<Rightarrow> 'c RefStats" where
  "RefStats_init H =
     \<lparr>num_mref_resolved = 0, num_fref_resolved = 0, num_invoke_virtual_refined = 0,
      num_invoke_interface_replaced = 0, num_invoke_super_removed = 0,
      rtype_candidates = rtype_candidates_empty H\<rparr>"

text \<open>
  \<^verbatim>\<open>ResolveRefsPass::resolve_refs(method)\<close>: the counters it returns, the method with
  its rewritten code, and the class table.
\<close>

definition resolve_refs ::
  "('d, 'c) Hierarchy \<Rightarrow> ResolveRefsPass \<Rightarrow> DexMethod option \<Rightarrow> class_table
    \<Rightarrow> error + ('c RefStats \<times> DexMethod option \<times> class_table)" where
  "resolve_refs H P meth tbl =
     (case meth of
        None \<Rightarrow> Inr (RefStats_init H, meth, tbl)
      | Some m \<Rightarrow>
          (case get_code m of
             None \<Rightarrow> Inr (RefStats_init H, meth, tbl)
           | Some code \<Rightarrow>
               (case resolve_refs_loop H P (method_ref m) code (RefStats_init H) tbl of
                  Inl e \<Rightarrow> Inl e
                | Inr (code', stats, tbl') \<Rightarrow>
                    Inr (stats, Some (m\<lparr>get_code := Some code'\<rparr>), tbl'))))"

section \<open>The second walk over a method: \<^verbatim>\<open>refine_virtual_callsites\<close>\<close>

text \<open>
  The body of the loop after the call of \<^verbatim>\<open>try_desuperify\<close>, from
  \<^verbatim>\<open>auto opcode = insn->opcode()\<close> on. \<open>idx\<close> is the position of the instruction,
  \<open>rtype_domain\<close> the local of that name.
\<close>

definition refine_callsite ::
  "('d, 'c) Hierarchy \<Rightarrow> ResolveRefsPass \<Rightarrow> class_table \<Rightarrow> 'd TypeEnvironments \<Rightarrow> DexMethodRef
    \<Rightarrow> bool \<Rightarrow> bool \<Rightarrow> nat \<Rightarrow> IRInstruction \<Rightarrow> 'c RefStats \<Rightarrow> 'd
    \<Rightarrow> error + (IRInstruction \<times> 'c RefStats \<times> 'd)" where
  "refine_callsite H P tbl envs caller is_support_lib specialize_rtype idx insn stats
      rtype_domain =
     (let opcode = insn_opcode insn in
      if specialize_rtype \<and> is_return_object opcode then
        (case src insn 0 of
           Inl e \<Rightarrow> Inl e
         | Inr r \<Rightarrow>
             (let inferred_rtype = get_type_domain envs idx r;
                  (cands, rdom) = collect_inferred_rtype H (rtype_candidates stats) caller
                                   inferred_rtype rtype_domain
              in Inr (insn, stats\<lparr>rtype_candidates := cands\<rparr>, rdom)))
      else if \<not> is_invoke_virtual opcode \<and> \<not> is_invoke_interface opcode then
        Inr (insn, stats, rtype_domain)
      else
        (let mref = insn_method insn in
         case resolve_method H mref (opcode_to_search H insn) caller of
           None \<Rightarrow> Inr (insn, stats, rtype_domain)
         | Some callee \<Rightarrow>
             (case src insn 0 of
                Inl e \<Rightarrow> Inl e
              | Inr this_reg \<Rightarrow>
                  (case get_dex_type envs idx this_reg of
                     None \<Rightarrow> Inr (insn, stats, rtype_domain)
                   | Some dex_type \<Rightarrow>
                       (case get_inferred_method_def H tbl caller (m_excluded_externals P)
                               is_support_lib callee dex_type of
                          None \<Rightarrow> Inr (insn, stats, rtype_domain)
                        | Some def_meth \<Rightarrow>
                            (case type_class' tbl (method_class def_meth) of
                               None \<Rightarrow> Inr (insn, stats, rtype_domain)
                             | Some def_cls \<Rightarrow>
                                 if mref = def_meth then Inr (insn, stats, rtype_domain)
                                 else
                                   (let rewrite =
                                      (let insn' = insn\<lparr>insn_method := def_meth\<rparr> in
                                       if is_invoke_interface opcode
                                          \<and> \<not> cls_is_interface def_cls
                                       then
                                         Inr (insn'\<lparr>insn_opcode := OPCODE_INVOKE_VIRTUAL\<rparr>,
                                              stats\<lparr>num_invoke_interface_replaced :=
                                                num_invoke_interface_replaced stats + 1\<rparr>,
                                              rtype_domain)
                                       else
                                         Inr (insn',
                                              stats\<lparr>num_invoke_virtual_refined :=
                                                num_invoke_virtual_refined stats + 1\<rparr>,
                                              rtype_domain))
                                    in if \<not> m_refine_to_external P \<and> cls_is_external def_cls
                                       then Inr (insn, stats, rtype_domain)
                                       else if cls_is_external def_cls then
                                         (case min_sdk_has_method P def_meth of
                                            Inl e \<Rightarrow> Inl e
                                          | Inr present \<Rightarrow>
                                              if \<not> present
                                              then Inr (insn, stats, rtype_domain)
                                              else rewrite)
                                       else rewrite)))))))"

text \<open>The whole body of the loop for one instruction.\<close>

definition refine_insn ::
  "('d, 'c) Hierarchy \<Rightarrow> ResolveRefsPass \<Rightarrow> class_table \<Rightarrow> 'd TypeEnvironments \<Rightarrow> DexMethodRef
    \<Rightarrow> bool \<Rightarrow> bool \<Rightarrow> bool \<Rightarrow> nat \<Rightarrow> IRInstruction \<Rightarrow> 'c RefStats \<Rightarrow> 'd
    \<Rightarrow> error + (IRInstruction \<times> 'c RefStats \<times> 'd)" where
  "refine_insn H P tbl envs caller is_support_lib desuperify specialize_rtype idx insn stats
      rtype_domain =
     (let (insn1, stats1) =
            (if desuperify then try_desuperify H tbl caller insn stats else (insn, stats))
      in refine_callsite H P tbl envs caller is_support_lib specialize_rtype idx insn1 stats1
           rtype_domain)"

fun refine_loop ::
  "('d, 'c) Hierarchy \<Rightarrow> ResolveRefsPass \<Rightarrow> class_table \<Rightarrow> 'd TypeEnvironments \<Rightarrow> DexMethodRef
    \<Rightarrow> bool \<Rightarrow> bool \<Rightarrow> bool \<Rightarrow> nat \<Rightarrow> IRInstruction list \<Rightarrow> 'c RefStats \<Rightarrow> 'd
    \<Rightarrow> error + (IRInstruction list \<times> 'c RefStats \<times> 'd)" where
  "refine_loop H P tbl envs caller is_support_lib desuperify specialize_rtype idx [] stats
      rtype_domain = Inr ([], stats, rtype_domain)"
| "refine_loop H P tbl envs caller is_support_lib desuperify specialize_rtype idx (insn # rest)
      stats rtype_domain =
     (case refine_insn H P tbl envs caller is_support_lib desuperify specialize_rtype idx insn
             stats rtype_domain of
        Inl e \<Rightarrow> Inl e
      | Inr (insn', stats', dom') \<Rightarrow>
          (case refine_loop H P tbl envs caller is_support_lib desuperify specialize_rtype
                  (Suc idx) rest stats' dom' of
             Inl e \<Rightarrow> Inl e
           | Inr (rest', stats'', dom'') \<Rightarrow> Inr (insn' # rest', stats'', dom'')))"

text \<open>
  \<^verbatim>\<open>ResolveRefsPass::refine_virtual_callsites(method, desuperify, specialize_rtype)\<close>.
  Type inference runs once, on the code as it is before the loop.
\<close>

definition refine_virtual_callsites ::
  "('d, 'c) Hierarchy \<Rightarrow> ResolveRefsPass \<Rightarrow> class_table \<Rightarrow> DexMethod option \<Rightarrow> bool \<Rightarrow> bool
    \<Rightarrow> error + ('c RefStats \<times> DexMethod option)" where
  "refine_virtual_callsites H P tbl meth desuperify specialize_rtype =
     (case meth of
        None \<Rightarrow> Inr (RefStats_init H, meth)
      | Some m \<Rightarrow>
          (case get_code m of
             None \<Rightarrow> Inr (RefStats_init H, meth)
           | Some code \<Rightarrow>
               (let envs = type_inference H (method_ref m) code;
                    is_support_lib = is_support_lib_type H (method_class (method_ref m))
                in case refine_loop H P tbl envs (method_ref m) is_support_lib desuperify
                          specialize_rtype 0 code (RefStats_init H) (rtype_domain_bottom H) of
                     Inl e \<Rightarrow> Inl e
                   | Inr (code', stats, rtype_domain) \<Rightarrow>
                       Inr (stats\<lparr>rtype_candidates :=
                                    collect_specializable_rtype H (rtype_candidates stats)
                                      (method_ref m) rtype_domain\<rparr>,
                            Some (m\<lparr>get_code := Some code'\<rparr>)))))"

section \<open>The pass\<close>

text \<open>
  Modelled from the spec: the pass manager's metrics (PassManager.h is not among the
  sources). \<^verbatim>\<open>incr_metric(name, n)\<close> adds \<open>n\<close> to the counter \<open>name\<close>. \<^verbatim>\<open>TRACE\<close>
  output is not modelled.
\<close>

type_synonym PassManager = "string \<Rightarrow> nat"

definition incr_metric :: "PassManager \<Rightarrow> string \<Rightarrow> nat \<Rightarrow> PassManager" where
  "incr_metric mgr name n = mgr(name := mgr name + n)"

text \<open>\<^verbatim>\<open>RefStats::print(mgr)\<close>.\<close>

definition RefStats_print ::
  "('d, 'c) Hierarchy \<Rightarrow> 'c RefStats \<Rightarrow> PassManager \<Rightarrow> PassManager" where
  "RefStats_print H stats mgr =
     (let mgr1 = incr_metric mgr ''method_refs_resolved'' (num_mref_resolved stats);
          mgr2 = incr_metric mgr1 ''field_refs_resolved'' (num_fref_resolved stats);
          mgr3 = incr_metric mgr2 ''num_invoke_virtual_refined''
                   (num_invoke_virtual_refined stats);
          mgr4 = incr_metric mgr3 ''num_invoke_interface_replaced''
                   (num_invoke_interface_replaced stats);
          mgr5 = incr_metric mgr4 ''num_invoke_super_removed'' (num_invoke_super_removed stats)
      in incr_metric mgr5 ''num_rtype_specialization_candidates''
           (rtype_candidates_size H (rtype_candidates stats)))"

text \<open>\<^verbatim>\<open>RefStats::operator+=\<close>.\<close>

definition RefStats_add ::
  "('d, 'c) Hierarchy \<Rightarrow> 'c RefStats \<Rightarrow> 'c RefStats \<Rightarrow> 'c RefStats" where
  "RefStats_add H this that =
     \<lparr>num_mref_resolved = num_mref_resolved this + num_mref_resolved that,
      num_fref_resolved = num_fref_resolved this + num_fref_resolved that,
      num_invoke_virtual_refined =
        num_invoke_virtual_refined this + num_invoke_virtual_refined that,
      num_invoke_interface_replaced =
        num_invoke_interface_replaced this + num_invoke_interface_replaced that,
      num_invoke_super_removed = num_invoke_super_removed this + num_invoke_super_removed that,
      rtype_candidates =
        rtype_candidates_add H (rtype_candidates this) (rtype_candidates that)\<rparr>"

text \<open>
  Modelled from the spec: \<^verbatim>\<open>walk::parallel::methods\<close> (Walkers.h is not among the
  sources). Each method of the scope is handled on its own and the per-method counters
  are combined with \<^verbatim>\<open>+=\<close> from a default-constructed value; the walk is sequential
  here, in the order of the scope.
\<close>

fun walk_methods ::
  "(DexMethod \<Rightarrow> class_table \<Rightarrow> error + ('c RefStats \<times> DexMethod \<times> class_table))
    \<Rightarrow> ('c RefStats \<Rightarrow> 'c RefStats \<Rightarrow> 'c RefStats) \<Rightarrow> DexMethod list \<Rightarrow> 'c RefStats
    \<Rightarrow> class_table \<Rightarrow> error + (DexMethod list \<times> 'c RefStats \<times> class_table)" where
  "walk_methods f add [] acc tbl = Inr ([], acc, tbl)"
| "walk_methods f add (m # ms) acc tbl =
     (case f m tbl of
        Inl e \<Rightarrow> Inl e
      | Inr (local_stats, m', tbl') \<Rightarrow>
          (case walk_methods f add ms (add acc local_stats) tbl' of
             Inl e \<Rightarrow> Inl e
           | Inr (ms', acc', tbl'') \<Rightarrow> Inr (m' # ms', acc', tbl'')))"

text \<open>The method a walk hands on: the pointer is never null in a walk.\<close>

definition walked :: "DexMethod \<Rightarrow> DexMethod option \<Rightarrow> DexMethod" where
  "walked m r = (case r of None \<Rightarrow> m | Some m' \<Rightarrow> m')"

text \<open>The first lambda of \<^verbatim>\<open>run_pass\<close>.\<close>

definition first_walk ::
  "('d, 'c) Hierarchy \<Rightarrow> ResolveRefsPass \<Rightarrow> DexMethod \<Rightarrow> class_table
    \<Rightarrow> error + ('c RefStats \<times> DexMethod \<times> class_table)" where
  "first_walk H P m tbl =
     (case resolve_refs H P (Some m) tbl of
        Inl e \<Rightarrow> Inl e
      | Inr (local_stats, m1, tbl1) \<Rightarrow>
          (case refine_virtual_callsites H P tbl1 (Some (walked m m1)) (m_desuperify P)
                  (m_specialize_rtype P) of
             Inl e \<Rightarrow> Inl e
           | Inr (stats2, m2) \<Rightarrow>
               Inr (RefStats_add H local_stats stats2, walked (walked m m1) m2, tbl1)))"

text \<open>The second lambda of \<^verbatim>\<open>run_pass\<close>.\<close>

definition second_walk ::
  "('d, 'c) Hierarchy \<Rightarrow> ResolveRefsPass \<Rightarrow> DexMethod \<Rightarrow> class_table
    \<Rightarrow> error + ('c RefStats \<times> DexMethod \<times> class_table)" where
  "second_walk H P m tbl =
     (case refine_virtual_callsites H P tbl (Some m) False False of
        Inl e \<Rightarrow> Inl e
      | Inr (local_stats, m') \<Rightarrow> Inr (local_stats, walked m m', tbl))"

text \<open>
  \<^verbatim>\<open>RtypeSpecialization\<close> is not part of the resolver. It rewrites the signatures of
  the candidates throughout the scope, so the scope, the class table and the answers of
  the hierarchy and of type inference after it are whatever it makes them.
\<close>

record ('d, 'c) RtypeSpecialization =
  specialize_rtypes ::
    "'c \<Rightarrow> DexMethod list \<Rightarrow> class_table
      \<Rightarrow> DexMethod list \<times> class_table \<times> ('d, 'c) Hierarchy"
  rs_print_stats :: "'c \<Rightarrow> DexMethod list \<Rightarrow> PassManager \<Rightarrow> PassManager"

text \<open>
  \<^verbatim>\<open>ResolveRefsPass::run_pass\<close>, on the scope \<^verbatim>\<open>build_class_scope(stores)\<close> gives.
\<close>

definition run_pass ::
  "('d, 'c) Hierarchy \<Rightarrow> ('d, 'c) RtypeSpecialization \<Rightarrow> ResolveRefsPass \<Rightarrow> DexMethod list
    \<Rightarrow> class_table \<Rightarrow> PassManager
    \<Rightarrow> error + (DexMethod list \<times> class_table \<times> PassManager)" where
  "run_pass H RS P scope tbl mgr =
     (if m_min_sdk_api P = None then Inl (AssertionFailure ''m_min_sdk_api'')
      else
        (case walk_methods (first_walk H P) (RefStats_add H) scope (RefStats_init H) tbl of
           Inl e \<Rightarrow> Inl e
         | Inr (scope1, stats, tbl1) \<Rightarrow>
             (let mgr1 = RefStats_print H stats mgr in
              if \<not> m_specialize_rtype P then Inr (scope1, tbl1, mgr1)
              else
                (let (scope2, tbl2, H2) =
                       specialize_rtypes RS (rtype_candidates stats) scope1 tbl1;
                     mgr2 = rs_print_stats RS (rtype_candidates stats) scope1 mgr1
                 in case walk_methods (second_walk H2 P) (RefStats_add H2) scope2
                           (RefStats_init H2) tbl2 of
                      Inl e \<Rightarrow> Inl e
                    | Inr (scope3, stats2, tbl3) \<Rightarrow>
                        Inr (scope3, tbl3, RefStats_print H2 stats2 mgr2)))))"

section \<open>The type checker's result interface\<close>

text \<open>
  The members of \<^verbatim>\<open>IRTypeChecker\<close> its inline methods read or write.
  \<open>m_dex_method_name\<close> is \<^verbatim>\<open>m_dex_method->get_deobfuscated_name()\<close>.
\<close>

record IRTypeChecker =
  m_dex_method_name :: string
  m_validate_access :: bool
  m_complete :: bool
  m_verify_moves :: bool
  m_check_no_overwrite_this :: bool
  m_good :: bool
  m_what :: string

definition verify_moves :: "IRTypeChecker \<Rightarrow> IRTypeChecker" where
  "verify_moves chk = (if \<not> m_complete chk then chk\<lparr>m_verify_moves := True\<rparr> else chk)"

definition check_no_overwrite_this :: "IRTypeChecker \<Rightarrow> IRTypeChecker" where
  "check_no_overwrite_this chk =
     (if \<not> m_complete chk then chk\<lparr>m_check_no_overwrite_this := True\<rparr> else chk)"

text \<open>
  \<^verbatim>\<open>always_assert_log(m_complete, "The type checker did not run on method %s.\n", ...)\<close>
\<close>

definition check_completion :: "IRTypeChecker \<Rightarrow> error + unit" where
  "check_completion chk =
     (if m_complete chk then Inr ()
      else Inl (AssertionFailure
             (''The type checker did not run on method '' @ m_dex_method_name chk
                @ ''.'' @ [CHR 0x0A])))"

definition good :: "IRTypeChecker \<Rightarrow> error + bool" where
  "good chk = (case check_completion chk of Inl e \<Rightarrow> Inl e | Inr u \<Rightarrow> Inr (m_good chk))"

definition fail :: "IRTypeChecker \<Rightarrow> error + bool" where
  "fail chk = (case check_completion chk of Inl e \<Rightarrow> Inl e | Inr u \<Rightarrow> Inr (\<not> m_good chk))"

definition what :: "IRTypeChecker \<Rightarrow> error + string" where
  "what chk = (case check_completion chk of Inl e \<Rightarrow> Inl e | Inr u \<Rightarrow> Inr (m_what chk))"

text \<open>
  Modelled from the spec: the constructor \<^verbatim>\<open>IRTypeChecker(dex_method, validate_access)\<close>
  (IRTypeChecker.cpp is not among the sources). A new checker is pending: it has not
  run, the stricter checks are off, and its verdict is the one of a method without
  errors.
\<close>

definition IRTypeChecker_new :: "string \<Rightarrow> bool \<Rightarrow> IRTypeChecker" where
  "IRTypeChecker_new dex_method_name validate_access =
     \<lparr>m_dex_method_name = dex_method_name, m_validate_access = validate_access,
      m_complete = False, m_verify_moves = False, m_check_no_overwrite_this = False,
      m_good = True, m_what = ''OK''\<rparr>"

text \<open>
  Modelled from the spec: \<^verbatim>\<open>IRTypeChecker::run()\<close> (IRTypeChecker.cpp is not among the
  sources). \<open>errs\<close> are the descriptions of the type errors of the method under the
  checker's configuration, in the order the sweep over the instructions meets them; the
  typing rules that produce them are outside this model. \<^verbatim>\<open>run\<close> is idempotent, makes
  the checker complete, stops at the first error and records its description.
\<close>

definition run :: "string list \<Rightarrow> IRTypeChecker \<Rightarrow> IRTypeChecker" where
  "run errs chk =
     (if m_complete chk then chk
      else
        (case errs of
           [] \<Rightarrow> chk\<lparr>m_complete := True\<rparr>
         | e # later \<Rightarrow> chk\<lparr>m_complete := True, m_good := False, m_what := e\<rparr>))"

section \<open>What the first walk collects, in the words of the spec\<close>

text \<open>
  The return type candidates of one method as the spec describes them: the declared
  collector \<^verbatim>\<open>collect_inferred_rtype\<close> joins, in the order of the code, the inferred
  type of the source of every \<^verbatim>\<open>return-object\<close> into the running type, starting from
  the given pair. This definition follows the spec's sentence, not the loop; the loop
  is compared with it below.
\<close>

fun spec_collected_rtypes ::
  "('d, 'c) Hierarchy \<Rightarrow> 'd TypeEnvironments \<Rightarrow> DexMethodRef \<Rightarrow> nat \<Rightarrow> IRInstruction list
    \<Rightarrow> 'c \<times> 'd \<Rightarrow> 'c \<times> 'd" where
  "spec_collected_rtypes H envs caller idx [] acc = acc"
| "spec_collected_rtypes H envs caller idx (insn # rest) acc =
     spec_collected_rtypes H envs caller (Suc idx) rest
       (if insn_opcode insn = OPCODE_RETURN_OBJECT
        then collect_inferred_rtype H (fst acc) caller
               (get_type_domain envs idx (insn_srcs insn ! 0)) (snd acc)
        else acc)"

section \<open>A small program for the closed examples\<close>

text \<open>
  Classes: \<open>LBase;\<close> (public), its subclass \<open>LDerived;\<close> (not public), the interface
  \<open>LIface;\<close>, and two classes of the platform: \<open>Landroid/View;\<close> (public) and
  \<open>Landroid/Hidden;\<close> (not public).
\<close>

definition ex_tbl :: class_table where
  "ex_tbl =
     [''LBase;'' \<mapsto> \<lparr>cls_is_external = False, cls_is_public = True, cls_is_interface = False\<rparr>,
      ''LDerived;'' \<mapsto> \<lparr>cls_is_external = False, cls_is_public = False, cls_is_interface = False\<rparr>,
      ''LIface;'' \<mapsto> \<lparr>cls_is_external = False, cls_is_public = True, cls_is_interface = True\<rparr>,
      ''Landroid/View;'' \<mapsto> \<lparr>cls_is_external = True, cls_is_public = True, cls_is_interface = False\<rparr>,
      ''Landroid/Hidden;'' \<mapsto> \<lparr>cls_is_external = True, cls_is_public = False, cls_is_interface = False\<rparr>]"

definition ex_method :: "DexType \<Rightarrow> string \<Rightarrow> bool \<Rightarrow> bool \<Rightarrow> bool \<Rightarrow> DexMethodRef" where
  "ex_method cls name is_def is_external is_final =
     \<lparr>method_class = cls, method_name = name, method_proto = ''()V'', method_is_def = is_def,
      method_is_external = is_external, method_is_final = is_final\<rparr>"

definition ex_field :: "DexType \<Rightarrow> string \<Rightarrow> bool \<Rightarrow> bool \<Rightarrow> DexFieldRef" where
  "ex_field cls name is_def is_external =
     \<lparr>field_class = cls, field_name = name, field_type = ''I'', field_is_def = is_def,
      field_is_external = is_external\<rparr>"

definition ex_insn :: "IROpcode \<Rightarrow> DexMethodRef \<Rightarrow> IRInstruction" where
  "ex_insn op m =
     \<lparr>insn_opcode = op, insn_srcs = [0], insn_method = m,
      insn_field = ex_field ''LBase;'' ''unused'' True False\<rparr>"

definition ex_field_insn :: "IROpcode \<Rightarrow> DexFieldRef \<Rightarrow> IRInstruction" where
  "ex_field_insn op f =
     \<lparr>insn_opcode = op, insn_srcs = [0], insn_method = ex_method ''LBase;'' ''unused'' True False False,
      insn_field = f\<rparr>"

definition ex_opcode_to_search :: "IRInstruction \<Rightarrow> MethodSearch" where
  "ex_opcode_to_search insn =
     (if insn_opcode insn = OPCODE_INVOKE_DIRECT then MethodSearch_Direct
      else if insn_opcode insn = OPCODE_INVOKE_STATIC then MethodSearch_Static
      else if insn_opcode insn = OPCODE_INVOKE_SUPER then MethodSearch_Super
      else if insn_opcode insn = OPCODE_INVOKE_INTERFACE then MethodSearch_Interface
      else MethodSearch_Virtual)"

text \<open>
  A hierarchy in which every method lookup answers \<open>target\<close> and type inference gives the
  receiver register \<open>0\<close> the class \<open>receiver\<close> at every instruction. The type domain is
  the list of the types collected, the candidates the list of the methods collected
  with their types.
\<close>

definition ex_H ::
  "DexMethodRef option \<Rightarrow> DexType option
    \<Rightarrow> (DexType list, (string \<times> DexType list) list) Hierarchy" where
  "ex_H target receiver =
     \<lparr>resolve_field = (\<lambda>f s. None),
      resolve_method = (\<lambda>r s c. target),
      resolve_method_cls = (\<lambda>c n p s. target),
      resolve_method_ref = (\<lambda>c n p s. target),
      opcode_to_search = ex_opcode_to_search,
      can_access = (\<lambda>a b. True),
      show_method = (\<lambda>m. method_class m @ ''.'' @ method_name m @ '':'' @ method_proto m),
      is_support_lib_type = (\<lambda>t. False),
      type_inference =
        (\<lambda>m code. \<lparr>get_dex_type = (\<lambda>i r. if r = 0 then receiver else None),
                    get_type_domain = (\<lambda>i r. case receiver of None \<Rightarrow> [] | Some t \<Rightarrow> [t])\<rparr>),
      rtype_domain_bottom = [],
      rtype_candidates_empty = [],
      rtype_candidates_add = (\<lambda>a b. a @ b),
      rtype_candidates_size = length,
      collect_inferred_rtype = (\<lambda>c m d cur. (c, cur @ d)),
      collect_specializable_rtype =
        (\<lambda>c m d. if d = [] then c else c @ [(method_name m, d)])\<rparr>"

definition ex_P :: "bool \<Rightarrow> (DexMethodRef \<Rightarrow> bool) option \<Rightarrow> ResolveRefsPass" where
  "ex_P refine_to_external api =
     \<lparr>m_refine_to_external = refine_to_external, m_desuperify = True,
      m_specialize_rtype = True, m_excluded_externals = [''Landroid/Hidden;''],
      m_min_sdk_api = api\<rparr>"

definition ex_caller :: DexMethodRef where
  "ex_caller = ex_method ''LDerived;'' ''caller'' True False False"

definition ex_stats :: "(string \<times> DexType list) list RefStats" where
  "ex_stats = RefStats_init (ex_H None None)"

text \<open>The same hierarchy with a field lookup that answers \<open>field_target\<close>.\<close>

definition ex_HF ::
  "DexFieldRef option \<Rightarrow> (DexType list, (string \<times> DexType list) list) Hierarchy" where
  "ex_HF field_target = (ex_H None None)\<lparr>resolve_field := (\<lambda>f s. field_target)\<rparr>"

text \<open>Methods and fields of the small program.\<close>

definition ex_Base_m :: DexMethodRef where
  "ex_Base_m = ex_method ''LBase;'' ''m'' True False False"

definition ex_Derived_m :: DexMethodRef where
  "ex_Derived_m = ex_method ''LDerived;'' ''m'' True False False"

definition ex_Iface_m :: DexMethodRef where
  "ex_Iface_m = ex_method ''LIface;'' ''m'' True False False"

definition ex_Base_f :: DexMethodRef where
  "ex_Base_f = ex_method ''LBase;'' ''f'' True False True"

definition ex_Base_n :: DexMethodRef where
  "ex_Base_n = ex_method ''LBase;'' ''n'' True False False"

definition ex_Derived_n_ref :: DexMethodRef where
  "ex_Derived_n_ref = ex_method ''LDerived;'' ''n'' False False False"

definition ex_View_draw :: DexMethodRef where
  "ex_View_draw = ex_method ''Landroid/View;'' ''draw'' True True False"

definition ex_Hidden_draw :: DexMethodRef where
  "ex_Hidden_draw = ex_method ''Landroid/Hidden;'' ''draw'' True True False"

definition ex_Derived_draw_ref :: DexMethodRef where
  "ex_Derived_draw_ref = ex_method ''LDerived;'' ''draw'' False False False"

text \<open>
  A return type specialization that leaves the scope, the class table and the answers
  of the hierarchy as they are, and counts the candidates it was given.
\<close>

definition ex_RS ::
  "(DexType list, (string \<times> DexType list) list) RtypeSpecialization" where
  "ex_RS =
     \<lparr>specialize_rtypes =
        (\<lambda>c scope tbl. (scope, tbl, ex_H (Some ex_Derived_m) (Some ''LDerived;''))),
      rs_print_stats = (\<lambda>c scope mgr. incr_metric mgr ''num_rtype_specialized'' (length c))\<rparr>"

section \<open>Facts about the loop bodies\<close>

text \<open>The definitions a closed example unfolds.\<close>

lemmas ex_defs = ex_tbl_def ex_method_def ex_field_def ex_insn_def ex_field_insn_def
  ex_opcode_to_search_def ex_H_def ex_HF_def ex_P_def ex_caller_def ex_stats_def
  RefStats_init_def type_class'_def ex_Base_m_def ex_Derived_m_def ex_Iface_m_def
  ex_Base_n_def ex_Derived_n_ref_def ex_View_draw_def ex_Hidden_draw_def
  ex_Derived_draw_ref_def ex_Base_f_def ex_RS_def

lemma is_excluded_external_iff:
  "is_excluded_external excluded_externals name
     \<longleftrightarrow> (\<exists>p \<in> set excluded_externals. prefix p name)"
  by (induction excluded_externals) auto

text \<open>The rewrite at the end of the loop body.\<close>

lemma refine_callsite_no_invoke:
  assumes "\<not> is_invoke_virtual (insn_opcode insn)" "\<not> is_invoke_interface (insn_opcode insn)"
    and "\<not> (specialize_rtype \<and> is_return_object (insn_opcode insn))"
  shows "refine_callsite H P tbl envs caller is_support_lib specialize_rtype idx insn stats rdom
           = Inr (insn, stats, rdom)"
  using assms by (auto simp: refine_callsite_def Let_def)

lemma invoke_not_return:
  "is_invoke_virtual op \<or> is_invoke_interface op \<Longrightarrow> \<not> is_return_object op"
  by (auto simp: is_invoke_virtual_def is_invoke_interface_def is_return_object_def)

lemma refine_callsite_invoke:
  assumes "is_invoke_virtual (insn_opcode insn) \<or> is_invoke_interface (insn_opcode insn)"
  shows "refine_callsite H P tbl envs caller is_support_lib specialize_rtype idx insn stats rdom =
     (case resolve_method H (insn_method insn) (opcode_to_search H insn) caller of
        None \<Rightarrow> Inr (insn, stats, rdom)
      | Some callee \<Rightarrow>
          (case src insn 0 of
             Inl e \<Rightarrow> Inl e
           | Inr this_reg \<Rightarrow>
               (case get_dex_type envs idx this_reg of
                  None \<Rightarrow> Inr (insn, stats, rdom)
                | Some dex_type \<Rightarrow>
                    (case get_inferred_method_def H tbl caller (m_excluded_externals P)
                            is_support_lib callee dex_type of
                       None \<Rightarrow> Inr (insn, stats, rdom)
                     | Some def_meth \<Rightarrow>
                         (case type_class' tbl (method_class def_meth) of
                            None \<Rightarrow> Inr (insn, stats, rdom)
                          | Some def_cls \<Rightarrow>
                              if insn_method insn = def_meth then Inr (insn, stats, rdom)
                              else if cls_is_external def_cls \<and> \<not> m_refine_to_external P
                              then Inr (insn, stats, rdom)
                              else if cls_is_external def_cls
                                      \<and> min_sdk_has_method P def_meth = Inl NullPointerDereference
                              then Inl NullPointerDereference
                              else if cls_is_external def_cls
                                      \<and> min_sdk_has_method P def_meth = Inr False
                              then Inr (insn, stats, rdom)
                              else if is_invoke_interface (insn_opcode insn)
                                      \<and> \<not> cls_is_interface def_cls
                              then Inr (insn\<lparr>insn_method := def_meth,
                                             insn_opcode := OPCODE_INVOKE_VIRTUAL\<rparr>,
                                        stats\<lparr>num_invoke_interface_replaced :=
                                                 num_invoke_interface_replaced stats + 1\<rparr>, rdom)
                              else Inr (insn\<lparr>insn_method := def_meth\<rparr>,
                                        stats\<lparr>num_invoke_virtual_refined :=
                                                 num_invoke_virtual_refined stats + 1\<rparr>, rdom))))))"
  using invoke_not_return[OF assms] assms
  by (auto simp: refine_callsite_def Let_def min_sdk_has_method_def
           split: option.splits sum.splits)

lemma refine_callsite_same_insn_if_no_invoke:
  assumes "\<not> is_invoke_virtual (insn_opcode insn)" "\<not> is_invoke_interface (insn_opcode insn)"
    and "refine_callsite H P tbl envs caller is_support_lib specialize_rtype idx insn stats rdom
           = Inr (insn', stats', rdom')"
  shows "insn' = insn"
  using assms
  by (auto simp: refine_callsite_def Let_def split: sum.splits prod.splits if_splits)

lemma refine_callsite_changed:
  assumes "refine_callsite H P tbl envs caller is_support_lib specialize_rtype idx insn stats rdom
             = Inr (insn', stats', rdom')"
    and "insn' \<noteq> insn"
  shows "(is_invoke_virtual (insn_opcode insn) \<or> is_invoke_interface (insn_opcode insn))
     \<and> insn_method insn' \<noteq> insn_method insn
     \<and> rdom' = rdom
     \<and> (\<exists>def_cls. type_class' tbl (method_class (insn_method insn')) = Some def_cls
           \<and> (cls_is_external def_cls \<longrightarrow>
                 m_refine_to_external P
                 \<and> min_sdk_has_method P (insn_method insn') = Inr True)
           \<and> (if is_invoke_interface (insn_opcode insn) \<and> \<not> cls_is_interface def_cls
               then insn' = insn\<lparr>insn_method := insn_method insn',
                                   insn_opcode := OPCODE_INVOKE_VIRTUAL\<rparr>
                    \<and> stats' = stats\<lparr>num_invoke_interface_replaced :=
                                         num_invoke_interface_replaced stats + 1\<rparr>
               else insn' = insn\<lparr>insn_method := insn_method insn'\<rparr>
                    \<and> stats' = stats\<lparr>num_invoke_virtual_refined :=
                                         num_invoke_virtual_refined stats + 1\<rparr>))"
proof -
  have inv: "is_invoke_virtual (insn_opcode insn) \<or> is_invoke_interface (insn_opcode insn)"
  proof (rule ccontr)
    assume "\<not> (is_invoke_virtual (insn_opcode insn) \<or> is_invoke_interface (insn_opcode insn))"
    then have "insn' = insn"
      using refine_callsite_same_insn_if_no_invoke[OF _ _ assms(1)] by simp
    with assms(2) show False by simp
  qed
  note eq = assms(1)[unfolded refine_callsite_invoke[OF inv]]
  obtain callee where c:
    "resolve_method H (insn_method insn) (opcode_to_search H insn) caller = Some callee"
    using eq assms(2)
    by (cases "resolve_method H (insn_method insn) (opcode_to_search H insn) caller") auto
  obtain this_reg where r: "src insn 0 = Inr this_reg"
    using eq assms(2) c by (cases "src insn 0") auto
  obtain dex_type where t: "get_dex_type envs idx this_reg = Some dex_type"
    using eq assms(2) c r by (cases "get_dex_type envs idx this_reg") auto
  obtain def_meth where m:
    "get_inferred_method_def H tbl caller (m_excluded_externals P) is_support_lib callee dex_type
       = Some def_meth"
    using eq assms(2) c r t
    by (cases "get_inferred_method_def H tbl caller (m_excluded_externals P) is_support_lib
                 callee dex_type") auto
  obtain def_cls where k: "type_class' tbl (method_class def_meth) = Some def_cls"
    using eq assms(2) c r t m by (cases "type_class' tbl (method_class def_meth)") auto
  have ne: "insn_method insn \<noteq> def_meth"
    using eq assms(2) by (auto simp: c r t m k split: if_splits)
  have gate: "cls_is_external def_cls \<longrightarrow>
                m_refine_to_external P \<and> min_sdk_has_method P def_meth = Inr True"
    using eq assms(2) ne
    by (auto simp: c r t m k min_sdk_has_method_def split: if_splits option.splits)
  have meth: "insn_method insn' = def_meth"
    using eq assms(2) ne by (auto simp: c r t m k split: if_splits)
  have res: "if is_invoke_interface (insn_opcode insn) \<and> \<not> cls_is_interface def_cls
             then insn' = insn\<lparr>insn_method := def_meth, insn_opcode := OPCODE_INVOKE_VIRTUAL\<rparr>
                  \<and> stats' = stats\<lparr>num_invoke_interface_replaced :=
                                       num_invoke_interface_replaced stats + 1\<rparr>
             else insn' = insn\<lparr>insn_method := def_meth\<rparr>
                  \<and> stats' = stats\<lparr>num_invoke_virtual_refined :=
                                       num_invoke_virtual_refined stats + 1\<rparr>"
    using eq assms(2) ne by (auto simp: c r t m k split: if_splits)
  have d: "rdom' = rdom"
    using eq by (auto simp: c r t m k split: if_splits)
  show ?thesis
    using inv ne gate res d k unfolding meth by auto
qed

lemma try_desuperify_insn_method:
  "insn_method (fst (try_desuperify H tbl caller insn stats)) = insn_method insn"
  by (auto simp: try_desuperify_def split: option.splits)

lemma try_desuperify_not_super:
  "insn_opcode insn \<noteq> OPCODE_INVOKE_SUPER
     \<Longrightarrow> try_desuperify H tbl caller insn stats = (insn, stats)"
  by (simp add: try_desuperify_def is_invoke_super_def)

lemma refine_insn_not_super:
  "insn_opcode insn \<noteq> OPCODE_INVOKE_SUPER \<Longrightarrow>
   refine_insn H P tbl envs caller is_support_lib desuperify specialize_rtype idx insn stats rdom
     = refine_callsite H P tbl envs caller is_support_lib specialize_rtype idx insn stats rdom"
  by (simp add: refine_insn_def try_desuperify_not_super)

lemma refine_insn_method_changed:
  assumes "refine_insn H P tbl envs caller is_support_lib desuperify specialize_rtype idx insn
             stats rdom = Inr (insn', stats', rdom')"
    and "insn_method insn' \<noteq> insn_method insn"
  shows "\<exists>def_cls. type_class' tbl (method_class (insn_method insn')) = Some def_cls
           \<and> (cls_is_external def_cls \<longrightarrow>
                 m_refine_to_external P
                 \<and> min_sdk_has_method P (insn_method insn') = Inr True)"
proof -
  obtain insn1 stats1 where d:
    "(if desuperify then try_desuperify H tbl caller insn stats else (insn, stats))
       = (insn1, stats1)"
    by (cases "if desuperify then try_desuperify H tbl caller insn stats else (insn, stats)")
  have m1: "insn_method insn1 = insn_method insn"
    using d try_desuperify_insn_method[of H tbl caller insn stats]
    by (auto split: if_splits)
  have r: "refine_callsite H P tbl envs caller is_support_lib specialize_rtype idx insn1 stats1
             rdom = Inr (insn', stats', rdom')"
    using assms(1) d by (simp add: refine_insn_def)
  have "insn' \<noteq> insn1" using assms(2) m1 by auto
  from refine_callsite_changed[OF r this] show ?thesis by blast
qed

lemma resolve_method_refs_gate_fails:
  assumes "has_method insn"
    and "resolve_method H (insn_method insn) (opcode_to_search H insn) caller = Some mdef"
    and "method_is_external mdef"
    and "\<not> m_refine_to_external P \<or> min_sdk_has_method P mdef = Inr False"
  shows "resolve_method_refs H P caller insn stats tbl = Inr (insn, stats, tbl)"
  using assms by (auto simp: resolve_method_refs_def Let_def)

lemma resolve_method_refs_changed:
  assumes "resolve_method_refs H P caller insn stats tbl = Inr (insn', stats', tbl')"
    and "insn' \<noteq> insn"
  shows "resolve_method H (insn_method insn) (opcode_to_search H insn) caller
           = Some (insn_method insn')
     \<and> insn_method insn' \<noteq> insn_method insn
     \<and> insn' = insn\<lparr>insn_method := insn_method insn'\<rparr>
     \<and> stats' = stats\<lparr>num_mref_resolved := num_mref_resolved stats + 1\<rparr>
     \<and> (method_is_external (insn_method insn') \<longrightarrow>
           m_refine_to_external P \<and> min_sdk_has_method P (insn_method insn') = Inr True)"
  using assms
  by (auto simp: resolve_method_refs_def Let_def split: option.splits sum.splits if_splits)

lemma refine_callsite_gate_fails:
  assumes "is_invoke_virtual (insn_opcode insn) \<or> is_invoke_interface (insn_opcode insn)"
    and "resolve_method H (insn_method insn) (opcode_to_search H insn) caller = Some callee"
    and "src insn 0 = Inr this_reg"
    and "get_dex_type envs idx this_reg = Some dex_type"
    and "get_inferred_method_def H tbl caller (m_excluded_externals P) is_support_lib callee
           dex_type = Some def_meth"
    and "type_class' tbl (method_class def_meth) = Some def_cls"
    and "cls_is_external def_cls"
    and "\<not> m_refine_to_external P \<or> min_sdk_has_method P def_meth = Inr False"
  shows "refine_callsite H P tbl envs caller is_support_lib specialize_rtype idx insn stats rdom
           = Inr (insn, stats, rdom)"
  using assms(2-) unfolding refine_callsite_invoke[OF assms(1)] by auto

lemma refine_callsite_no_target:
  assumes "is_invoke_virtual (insn_opcode insn) \<or> is_invoke_interface (insn_opcode insn)"
    and "resolve_method H (insn_method insn) (opcode_to_search H insn) caller = Some callee"
    and "src insn 0 = Inr this_reg"
    and "get_dex_type envs idx this_reg = Some dex_type"
    and "get_inferred_method_def H tbl caller (m_excluded_externals P) is_support_lib callee
           dex_type = None"
  shows "refine_callsite H P tbl envs caller is_support_lib specialize_rtype idx insn stats rdom
           = Inr (insn, stats, rdom)"
  using assms(2-) unfolding refine_callsite_invoke[OF assms(1)] by auto

lemma get_inferred_method_def_excluded:
  assumes "resolve_method_cls H (class_ptr tbl inferred_type) (method_name callee)
             (method_proto callee) MethodSearch_Virtual = Some resolved"
    and "type_class' tbl (method_class resolved) = Some resolved_cls"
    and "cls_is_external resolved_cls"
    and "is_excluded_external excluded_externals (show_method H resolved)"
  shows "get_inferred_method_def H tbl caller excluded_externals is_support_lib callee
           inferred_type = None"
  using assms by (simp add: get_inferred_method_def_def Let_def)

lemma resolve_refs_loop_pointwise:
  "resolve_refs_loop H P caller code stats tbl = Inr (code', stats', tbl')
   \<Longrightarrow> length code' = length code
       \<and> (\<forall>i<length code. \<exists>s t s2 t2.
             resolve_refs_insn H P caller (code ! i) s t = Inr (code' ! i, s2, t2))"
proof (induction code arbitrary: stats tbl code')
  case Nil
  then show ?case by simp
next
  case (Cons insn rest)
  from Cons.prems obtain insn1 stats1 tbl1 rest1 where
    step: "resolve_refs_insn H P caller insn stats tbl = Inr (insn1, stats1, tbl1)"
    and tail: "resolve_refs_loop H P caller rest stats1 tbl1 = Inr (rest1, stats', tbl')"
    and code': "code' = insn1 # rest1"
    by (auto split: sum.splits prod.splits)
  from Cons.IH[OF tail] have len: "length rest1 = length rest"
    and ih: "\<forall>i<length rest. \<exists>s t s2 t2.
               resolve_refs_insn H P caller (rest ! i) s t = Inr (rest1 ! i, s2, t2)"
    by blast+
  have "\<exists>s t s2 t2. resolve_refs_insn H P caller ((insn # rest) ! i) s t
                      = Inr ((insn1 # rest1) ! i, s2, t2)"
    if "i < length (insn # rest)" for i
  proof (cases i)
    case 0
    then show ?thesis using step by auto
  next
    case (Suc j)
    then show ?thesis using ih that by simp
  qed
  then show ?case using len code' by simp
qed

lemmas resolver_defs = resolve_refs_def resolve_refs_insn_def resolve_method_refs_def
  resolve_field_refs_def refine_virtual_callsites_def refine_insn_def refine_callsite_def
  try_desuperify_def get_inferred_method_def_def class_ptr_def min_sdk_has_method_def
  has_method_def src_def is_invoke_super_def is_invoke_virtual_def is_invoke_interface_def
  is_return_object_def set_public_def Let_def

section \<open>The gate on external targets (C1)\<close>

text \<open>
  C1. When the resolved definition of an invoke instruction is external, its method
  reference is rewritten only if \<open>refine_to_external\<close> is enabled and the API surface of
  the minimum SDK has the definition; otherwise the instruction is left as it is. The
  gate stands in \<^verbatim>\<open>resolve_method_refs\<close>, which tests the external bit of the
  definition, and in the body of the refinement loop, which tests the external bit of
  the owning class of the target inferred for an \<^verbatim>\<open>invoke-virtual\<close> or
  \<^verbatim>\<open>invoke-interface\<close> instruction. In both, whatever external method reference is
  written has passed the gate.
\<close>

theorem external_gate:
  "(has_method insn
      \<and> resolve_method H (insn_method insn) (opcode_to_search H insn) caller = Some mdef
      \<and> method_is_external mdef
      \<and> (\<not> m_refine_to_external P \<or> min_sdk_has_method P mdef = Inr False)
     \<longrightarrow> resolve_method_refs H P caller insn stats tbl = Inr (insn, stats, tbl))
   \<and> (resolve_method_refs H P caller insn stats tbl = Inr (insn1, stats1, tbl1)
      \<and> insn1 \<noteq> insn \<and> method_is_external (insn_method insn1)
     \<longrightarrow> m_refine_to_external P \<and> min_sdk_has_method P (insn_method insn1) = Inr True)
   \<and> ((is_invoke_virtual (insn_opcode insn) \<or> is_invoke_interface (insn_opcode insn))
      \<and> resolve_method H (insn_method insn) (opcode_to_search H insn) caller = Some callee
      \<and> src insn 0 = Inr this_reg
      \<and> get_dex_type envs idx this_reg = Some dex_type
      \<and> get_inferred_method_def H tbl caller (m_excluded_externals P) is_support_lib callee
           dex_type = Some def_meth
      \<and> type_class' tbl (method_class def_meth) = Some def_cls
      \<and> cls_is_external def_cls
      \<and> (\<not> m_refine_to_external P \<or> min_sdk_has_method P def_meth = Inr False)
     \<longrightarrow> refine_insn H P tbl envs caller is_support_lib desuperify specialize_rtype idx insn
           stats rdom = Inr (insn, stats, rdom))
   \<and> (refine_insn H P tbl envs caller is_support_lib desuperify specialize_rtype idx insn stats
        rdom = Inr (insn2, stats2, dom2)
      \<and> insn_method insn2 \<noteq> insn_method insn
      \<and> type_class' tbl (method_class (insn_method insn2)) = Some cls2
      \<and> cls_is_external cls2
     \<longrightarrow> m_refine_to_external P \<and> min_sdk_has_method P (insn_method insn2) = Inr True)"
proof (intro conjI impI)
  assume "has_method insn
      \<and> resolve_method H (insn_method insn) (opcode_to_search H insn) caller = Some mdef
      \<and> method_is_external mdef
      \<and> (\<not> m_refine_to_external P \<or> min_sdk_has_method P mdef = Inr False)"
  then show "resolve_method_refs H P caller insn stats tbl = Inr (insn, stats, tbl)"
    by (elim conjE) (rule resolve_method_refs_gate_fails; assumption)
next
  assume a: "resolve_method_refs H P caller insn stats tbl = Inr (insn1, stats1, tbl1)
      \<and> insn1 \<noteq> insn \<and> method_is_external (insn_method insn1)"
  then have "method_is_external (insn_method insn1) \<longrightarrow>
           m_refine_to_external P \<and> min_sdk_has_method P (insn_method insn1) = Inr True"
    using resolve_method_refs_changed[of H P caller insn stats tbl insn1 stats1 tbl1] by blast
  with a show "m_refine_to_external P" "min_sdk_has_method P (insn_method insn1) = Inr True"
    by blast+
next
  assume "(is_invoke_virtual (insn_opcode insn) \<or> is_invoke_interface (insn_opcode insn))
      \<and> resolve_method H (insn_method insn) (opcode_to_search H insn) caller = Some callee
      \<and> src insn 0 = Inr this_reg
      \<and> get_dex_type envs idx this_reg = Some dex_type
      \<and> get_inferred_method_def H tbl caller (m_excluded_externals P) is_support_lib callee
           dex_type = Some def_meth
      \<and> type_class' tbl (method_class def_meth) = Some def_cls
      \<and> cls_is_external def_cls
      \<and> (\<not> m_refine_to_external P \<or> min_sdk_has_method P def_meth = Inr False)"
  then have g: "(is_invoke_virtual (insn_opcode insn) \<or> is_invoke_interface (insn_opcode insn))
      \<and> resolve_method H (insn_method insn) (opcode_to_search H insn) caller = Some callee
      \<and> src insn 0 = Inr this_reg
      \<and> get_dex_type envs idx this_reg = Some dex_type
      \<and> get_inferred_method_def H tbl caller (m_excluded_externals P) is_support_lib callee
           dex_type = Some def_meth
      \<and> type_class' tbl (method_class def_meth) = Some def_cls
      \<and> cls_is_external def_cls
      \<and> (\<not> m_refine_to_external P \<or> min_sdk_has_method P def_meth = Inr False)"
    by simp
  have "refine_callsite H P tbl envs caller is_support_lib specialize_rtype idx insn stats
               rdom = Inr (insn, stats, rdom)"
    using g by (elim conjE) (rule refine_callsite_gate_fails; assumption)
  moreover have "insn_opcode insn \<noteq> OPCODE_INVOKE_SUPER"
    using g by (auto simp: is_invoke_virtual_def is_invoke_interface_def)
  ultimately show "refine_insn H P tbl envs caller is_support_lib desuperify specialize_rtype idx insn
               stats rdom = Inr (insn, stats, rdom)"
    by (simp add: refine_insn_not_super)
next
  assume a: "refine_insn H P tbl envs caller is_support_lib desuperify specialize_rtype idx insn
        stats rdom = Inr (insn2, stats2, dom2)
      \<and> insn_method insn2 \<noteq> insn_method insn
      \<and> type_class' tbl (method_class (insn_method insn2)) = Some cls2
      \<and> cls_is_external cls2"
  then have "\<exists>def_cls. type_class' tbl (method_class (insn_method insn2)) = Some def_cls
           \<and> (cls_is_external def_cls \<longrightarrow>
                 m_refine_to_external P
                 \<and> min_sdk_has_method P (insn_method insn2) = Inr True)"
    by (elim conjE) (rule refine_insn_method_changed; assumption)
  with a show "m_refine_to_external P" "min_sdk_has_method P (insn_method insn2) = Inr True"
    by auto
qed

theorem external_gate_witness:
  "resolve_method_refs (ex_H (Some ex_View_draw) None) (ex_P False (Some (\<lambda>m. True))) ex_caller
      (ex_insn OPCODE_INVOKE_VIRTUAL ex_Derived_draw_ref) ex_stats ex_tbl
     = Inr (ex_insn OPCODE_INVOKE_VIRTUAL ex_Derived_draw_ref, ex_stats, ex_tbl)
   \<and> resolve_method_refs (ex_H (Some ex_View_draw) None) (ex_P True (Some (\<lambda>m. False)))
      ex_caller (ex_insn OPCODE_INVOKE_VIRTUAL ex_Derived_draw_ref) ex_stats ex_tbl
     = Inr (ex_insn OPCODE_INVOKE_VIRTUAL ex_Derived_draw_ref, ex_stats, ex_tbl)
   \<and> refine_insn (ex_H (Some ex_View_draw) (Some ''Landroid/View;''))
      (ex_P False (Some (\<lambda>m. True))) ex_tbl
      (type_inference (ex_H (Some ex_View_draw) (Some ''Landroid/View;'')) ex_caller [])
      ex_caller False True False 0 (ex_insn OPCODE_INVOKE_VIRTUAL ex_Derived_draw_ref) ex_stats []
     = Inr (ex_insn OPCODE_INVOKE_VIRTUAL ex_Derived_draw_ref, ex_stats, [])"
  using external_gate
    [where insn = "ex_insn OPCODE_INVOKE_VIRTUAL ex_Derived_draw_ref"
       and H = "ex_H (Some ex_View_draw) None" and mdef = ex_View_draw
       and P = "ex_P False (Some (\<lambda>m. True))" and caller = ex_caller and stats = ex_stats
       and tbl = ex_tbl]
    external_gate
    [where insn = "ex_insn OPCODE_INVOKE_VIRTUAL ex_Derived_draw_ref"
       and H = "ex_H (Some ex_View_draw) None" and mdef = ex_View_draw
       and P = "ex_P True (Some (\<lambda>m. False))" and caller = ex_caller and stats = ex_stats
       and tbl = ex_tbl]
    external_gate
    [where insn = "ex_insn OPCODE_INVOKE_VIRTUAL ex_Derived_draw_ref"
       and H = "ex_H (Some ex_View_draw) (Some ''Landroid/View;'')"
       and P = "ex_P False (Some (\<lambda>m. True))" and caller = ex_caller and stats = ex_stats
       and tbl = ex_tbl and callee = ex_View_draw and this_reg = 0
       and envs = "type_inference (ex_H (Some ex_View_draw) (Some ''Landroid/View;'')) ex_caller []"
       and idx = 0 and dex_type = "''Landroid/View;''" and def_meth = ex_View_draw
       and def_cls = "\<lparr>cls_is_external = True, cls_is_public = True, cls_is_interface = False\<rparr>"
       and is_support_lib = False and specialize_rtype = False and rdom = "[]"
       and desuperify = True]
  by (simp add: ex_defs has_method_def min_sdk_has_method_def is_invoke_virtual_def src_def
        get_inferred_method_def_def class_ptr_def)

section \<open>Failed conditions leave the site unchanged (C2)\<close>

text \<open>
  C2 as it is stated fails in two ways. A method reference that is already a definition
  is not skipped: refinement rewrites the call \<open>invoke-virtual LBase;.m:()V\<close>, whose
  reference is a definition, to the override in the receiver's inferred class. And the
  conditions of the refinement are tested after \<^verbatim>\<open>try_desuperify\<close>: the
  \<^verbatim>\<open>invoke-super\<close> below has become \<^verbatim>\<open>invoke-virtual\<close> although the class of its
  receiver could not be inferred.
\<close>

theorem definition_refined_and_opcode_changed_counterexample:
  "method_is_def (insn_method (ex_insn OPCODE_INVOKE_VIRTUAL ex_Base_m))
   \<and> refine_virtual_callsites (ex_H (Some ex_Derived_m) (Some ''LDerived;'')) (ex_P False None)
        ex_tbl
        (Some \<lparr>method_ref = ex_caller,
               get_code = Some [ex_insn OPCODE_INVOKE_VIRTUAL ex_Base_m]\<rparr>) False False
      = Inr (ex_stats\<lparr>num_invoke_virtual_refined := 1\<rparr>,
             Some \<lparr>method_ref = ex_caller,
                   get_code = Some [ex_insn OPCODE_INVOKE_VIRTUAL ex_Derived_m]\<rparr>)
   \<and> get_dex_type (type_inference (ex_H (Some ex_Base_f) None) ex_caller []) 0 0 = None
   \<and> refine_insn (ex_H (Some ex_Base_f) None) (ex_P False None) ex_tbl
        (type_inference (ex_H (Some ex_Base_f) None) ex_caller []) ex_caller False True False 0
        (ex_insn OPCODE_INVOKE_SUPER ex_Base_f) ex_stats []
      = Inr (ex_insn OPCODE_INVOKE_VIRTUAL ex_Base_f,
             ex_stats\<lparr>num_invoke_super_removed := 1\<rparr>, [])"
  by (simp add: resolver_defs ex_defs)

text \<open>
  C2, amended. Each rewrite of the resolver is skipped without an error when one of its
  conditions fails, and it then leaves the instruction, the counters and the class
  table exactly as they were:

  \<^item> \<^verbatim>\<open>resolve_field_refs\<close>: the field reference is already a definition, the lookup
    returns null, or it returns the reference itself;
  \<^item> \<^verbatim>\<open>resolve_method_refs\<close>: the lookup returns null or the reference itself, or the
    definition is external and \<open>refine_to_external\<close> is off or the API surface of the
    minimum SDK lacks it;
  \<^item> \<^verbatim>\<open>get_inferred_method_def\<close> returns none when the lookup in the inferred class
    returns null, when the target is an excluded external and when the target is not
    accessible from the caller;
  \<^item> the refinement of an \<^verbatim>\<open>invoke-virtual\<close> or \<^verbatim>\<open>invoke-interface\<close> call site: the
    callee does not resolve, the class of the receiver was not inferred,
    \<^verbatim>\<open>get_inferred_method_def\<close> returns none, the target is the reference itself, or
    the target's class is external and the gate of \<open>refine_to_external\<close> and the
    minimum SDK fails. The call site is the instruction \<open>dinsn\<close> as
    \<^verbatim>\<open>try_desuperify\<close> left it, which is the instruction itself unless it was an
    \<^verbatim>\<open>invoke-super\<close> and desuperification is on.

  A method reference that is already a definition is not skipped for that.
\<close>

theorem failed_condition_leaves_site_unchanged:
  "(field_is_def (insn_field insn)
      \<or> resolve_field H (insn_field insn) field_search = None
      \<or> resolve_field H (insn_field insn) field_search = Some (insn_field insn)
     \<longrightarrow> resolve_field_refs H field_search insn stats tbl = Inr (insn, stats, tbl))
   \<and> (has_method insn
      \<and> (resolve_method H (insn_method insn) (opcode_to_search H insn) caller = None
         \<or> resolve_method H (insn_method insn) (opcode_to_search H insn) caller
             = Some (insn_method insn)
         \<or> (\<exists>mdef. resolve_method H (insn_method insn) (opcode_to_search H insn) caller
                      = Some mdef
               \<and> method_is_external mdef
               \<and> (\<not> m_refine_to_external P \<or> min_sdk_has_method P mdef = Inr False)))
     \<longrightarrow> resolve_method_refs H P caller insn stats tbl = Inr (insn, stats, tbl))
   \<and> (resolve_method_cls H (class_ptr tbl inferred_type) (method_name callee)
         (method_proto callee) MethodSearch_Virtual = None
      \<or> (\<exists>resolved. resolve_method_cls H (class_ptr tbl inferred_type) (method_name callee)
                         (method_proto callee) MethodSearch_Virtual = Some resolved
            \<and> ((\<exists>resolved_cls. type_class' tbl (method_class resolved) = Some resolved_cls
                     \<and> cls_is_external resolved_cls
                     \<and> is_excluded_external excluded_externals (show_method H resolved))
               \<or> \<not> can_access H caller resolved))
     \<longrightarrow> get_inferred_method_def H tbl caller excluded_externals is_support_lib callee
           inferred_type = None)
   \<and> ((if desuperify then try_desuperify H tbl caller insn stats else (insn, stats))
        = (dinsn, dstats)
      \<and> (is_invoke_virtual (insn_opcode dinsn) \<or> is_invoke_interface (insn_opcode dinsn))
      \<and> (resolve_method H (insn_method dinsn) (opcode_to_search H dinsn) caller = None
         \<or> (\<exists>resolved_callee this_reg.
               resolve_method H (insn_method dinsn) (opcode_to_search H dinsn) caller
                 = Some resolved_callee
               \<and> src dinsn 0 = Inr this_reg
               \<and> (get_dex_type envs idx this_reg = None
                  \<or> (\<exists>dex_type. get_dex_type envs idx this_reg = Some dex_type
                        \<and> (get_inferred_method_def H tbl caller (m_excluded_externals P)
                               is_support_lib resolved_callee dex_type = None
                           \<or> get_inferred_method_def H tbl caller (m_excluded_externals P)
                               is_support_lib resolved_callee dex_type
                                = Some (insn_method dinsn)
                           \<or> (\<exists>def_meth def_cls.
                                 get_inferred_method_def H tbl caller (m_excluded_externals P)
                                   is_support_lib resolved_callee dex_type = Some def_meth
                                 \<and> type_class' tbl (method_class def_meth) = Some def_cls
                                 \<and> cls_is_external def_cls
                                 \<and> (\<not> m_refine_to_external P
                                    \<or> min_sdk_has_method P def_meth = Inr False)))))))
     \<longrightarrow> refine_insn H P tbl envs caller is_support_lib desuperify specialize_rtype idx insn
           stats rdom = Inr (dinsn, dstats, rdom))
   \<and> (\<not> desuperify \<or> insn_opcode insn \<noteq> OPCODE_INVOKE_SUPER
     \<longrightarrow> (if desuperify then try_desuperify H tbl caller insn stats else (insn, stats))
           = (insn, stats))"
proof (intro conjI impI)
  assume "field_is_def (insn_field insn)
      \<or> resolve_field H (insn_field insn) field_search = None
      \<or> resolve_field H (insn_field insn) field_search = Some (insn_field insn)"
  then show "resolve_field_refs H field_search insn stats tbl = Inr (insn, stats, tbl)"
    by (auto simp: resolve_field_refs_def Let_def)
next
  assume "has_method insn
      \<and> (resolve_method H (insn_method insn) (opcode_to_search H insn) caller = None
         \<or> resolve_method H (insn_method insn) (opcode_to_search H insn) caller
             = Some (insn_method insn)
         \<or> (\<exists>mdef. resolve_method H (insn_method insn) (opcode_to_search H insn) caller
                      = Some mdef
               \<and> method_is_external mdef
               \<and> (\<not> m_refine_to_external P \<or> min_sdk_has_method P mdef = Inr False)))"
  then show "resolve_method_refs H P caller insn stats tbl = Inr (insn, stats, tbl)"
    by (auto simp: resolve_method_refs_def Let_def)
next
  assume "resolve_method_cls H (class_ptr tbl inferred_type) (method_name callee)
         (method_proto callee) MethodSearch_Virtual = None
      \<or> (\<exists>resolved. resolve_method_cls H (class_ptr tbl inferred_type) (method_name callee)
                         (method_proto callee) MethodSearch_Virtual = Some resolved
            \<and> ((\<exists>resolved_cls. type_class' tbl (method_class resolved) = Some resolved_cls
                     \<and> cls_is_external resolved_cls
                     \<and> is_excluded_external excluded_externals (show_method H resolved))
               \<or> \<not> can_access H caller resolved))"
  then show "get_inferred_method_def H tbl caller excluded_externals is_support_lib callee
               inferred_type = None"
    by (auto simp: get_inferred_method_def_def Let_def)
next
  assume a: "(if desuperify then try_desuperify H tbl caller insn stats else (insn, stats))
        = (dinsn, dstats)
      \<and> (is_invoke_virtual (insn_opcode dinsn) \<or> is_invoke_interface (insn_opcode dinsn))
      \<and> (resolve_method H (insn_method dinsn) (opcode_to_search H dinsn) caller = None
         \<or> (\<exists>resolved_callee this_reg.
               resolve_method H (insn_method dinsn) (opcode_to_search H dinsn) caller
                 = Some resolved_callee
               \<and> src dinsn 0 = Inr this_reg
               \<and> (get_dex_type envs idx this_reg = None
                  \<or> (\<exists>dex_type. get_dex_type envs idx this_reg = Some dex_type
                        \<and> (get_inferred_method_def H tbl caller (m_excluded_externals P)
                               is_support_lib resolved_callee dex_type = None
                           \<or> get_inferred_method_def H tbl caller (m_excluded_externals P)
                               is_support_lib resolved_callee dex_type
                                = Some (insn_method dinsn)
                           \<or> (\<exists>def_meth def_cls.
                                 get_inferred_method_def H tbl caller (m_excluded_externals P)
                                   is_support_lib resolved_callee dex_type = Some def_meth
                                 \<and> type_class' tbl (method_class def_meth) = Some def_cls
                                 \<and> cls_is_external def_cls
                                 \<and> (\<not> m_refine_to_external P
                                    \<or> min_sdk_has_method P def_meth = Inr False)))))))"
  then have inv: "is_invoke_virtual (insn_opcode dinsn) \<or> is_invoke_interface (insn_opcode dinsn)"
    and d: "(if desuperify then try_desuperify H tbl caller insn stats else (insn, stats))
              = (dinsn, dstats)"
    by simp_all
  have "refine_insn H P tbl envs caller is_support_lib desuperify specialize_rtype idx
               insn stats rdom
             = refine_callsite H P tbl envs caller is_support_lib specialize_rtype idx dinsn
                 dstats rdom"
    using d by (simp add: refine_insn_def)
  moreover have "refine_callsite H P tbl envs caller is_support_lib specialize_rtype idx dinsn
                   dstats rdom = Inr (dinsn, dstats, rdom)"
    using a unfolding refine_callsite_invoke[OF inv]
    by (auto split: option.splits)
  ultimately show "refine_insn H P tbl envs caller is_support_lib desuperify specialize_rtype
                     idx insn stats rdom = Inr (dinsn, dstats, rdom)"
    by simp
next
  assume "\<not> desuperify \<or> insn_opcode insn \<noteq> OPCODE_INVOKE_SUPER"
  then show "(if desuperify then try_desuperify H tbl caller insn stats else (insn, stats))
               = (insn, stats)"
    by (auto simp: try_desuperify_not_super)
qed

theorem failed_condition_leaves_site_unchanged_witness:
  "field_is_def (insn_field (ex_field_insn OPCODE_SGET (ex_field ''LBase;'' ''x'' True False)))
   \<and> resolve_field_refs (ex_HF (Some (ex_field ''LBase;'' ''y'' True False))) FieldSearch_Static
        (ex_field_insn OPCODE_SGET (ex_field ''LBase;'' ''x'' True False)) ex_stats ex_tbl
      = Inr (ex_field_insn OPCODE_SGET (ex_field ''LBase;'' ''x'' True False), ex_stats, ex_tbl)
   \<and> resolve_method_refs (ex_H None None) (ex_P True (Some (\<lambda>m. True))) ex_caller
        (ex_insn OPCODE_INVOKE_STATIC ex_Derived_n_ref) ex_stats ex_tbl
      = Inr (ex_insn OPCODE_INVOKE_STATIC ex_Derived_n_ref, ex_stats, ex_tbl)
   \<and> get_inferred_method_def
        ((ex_H (Some ex_Derived_m) (Some ''LDerived;''))\<lparr>can_access := (\<lambda>a b. False)\<rparr>)
        ex_tbl ex_caller [] False ex_Base_m ''LDerived;'' = None
   \<and> get_dex_type (type_inference (ex_H (Some ex_Derived_m) None) ex_caller []) 0 0 = None
   \<and> refine_insn (ex_H (Some ex_Derived_m) None) (ex_P True (Some (\<lambda>m. True))) ex_tbl
        (type_inference (ex_H (Some ex_Derived_m) None) ex_caller []) ex_caller False True True 0
        (ex_insn OPCODE_INVOKE_VIRTUAL ex_Base_m) ex_stats []
      = Inr (ex_insn OPCODE_INVOKE_VIRTUAL ex_Base_m, ex_stats, [])"
  using failed_condition_leaves_site_unchanged
    [where insn = "ex_field_insn OPCODE_SGET (ex_field ''LBase;'' ''x'' True False)"
       and H = "ex_HF (Some (ex_field ''LBase;'' ''y'' True False))"
       and field_search = FieldSearch_Static and stats = ex_stats and tbl = ex_tbl]
    failed_condition_leaves_site_unchanged
    [where insn = "ex_insn OPCODE_INVOKE_STATIC ex_Derived_n_ref" and H = "ex_H None None"
       and P = "ex_P True (Some (\<lambda>m. True))" and caller = ex_caller and stats = ex_stats
       and tbl = ex_tbl]
    failed_condition_leaves_site_unchanged
    [where H = "(ex_H (Some ex_Derived_m) (Some ''LDerived;''))\<lparr>can_access := (\<lambda>a b. False)\<rparr>"
       and tbl = ex_tbl and caller = ex_caller and excluded_externals = "[]"
       and callee = ex_Base_m and inferred_type = "''LDerived;''" and is_support_lib = False]
    failed_condition_leaves_site_unchanged
    [where insn = "ex_insn OPCODE_INVOKE_VIRTUAL ex_Base_m" and H = "ex_H (Some ex_Derived_m) None"
       and P = "ex_P True (Some (\<lambda>m. True))" and caller = ex_caller and stats = ex_stats
       and tbl = ex_tbl and desuperify = True
       and dinsn = "ex_insn OPCODE_INVOKE_VIRTUAL ex_Base_m" and dstats = ex_stats
       and envs = "type_inference (ex_H (Some ex_Derived_m) None) ex_caller []" and idx = 0
       and is_support_lib = False and specialize_rtype = True and rdom = "[]"]
  by (simp add: resolver_defs ex_defs)

section \<open>Desuperification (C3)\<close>

text \<open>
  C3. For an \<^verbatim>\<open>invoke-super\<close> instruction, \<^verbatim>\<open>try_desuperify\<close> rewrites the opcode to
  \<^verbatim>\<open>invoke-virtual\<close> if and only if the caller's class has a definition, the owning
  class of the referenced callee exists and is not an interface, and the callee found
  by virtual search from the caller's class is non-null, not external and final. Each
  rewrite adds one to \<open>num_invoke_super_removed\<close>; without a rewrite the instruction and
  the counters are as they were.
\<close>

theorem try_desuperify_invoke_super:
  assumes "insn_opcode insn = OPCODE_INVOKE_SUPER"
  shows "try_desuperify H tbl caller insn stats =
           (if type_class' tbl (method_class caller) \<noteq> None
               \<and> (\<exists>callee_cls.
                      type_class' tbl (method_class (insn_method insn)) = Some callee_cls
                      \<and> \<not> cls_is_interface callee_cls)
               \<and> (\<exists>callee. resolve_method_ref H (method_class caller)
                               (method_name (insn_method insn))
                               (method_proto (insn_method insn)) MethodSearch_Virtual
                             = Some callee
                      \<and> \<not> method_is_external callee \<and> method_is_final callee)
            then (insn\<lparr>insn_opcode := OPCODE_INVOKE_VIRTUAL\<rparr>,
                  stats\<lparr>num_invoke_super_removed := num_invoke_super_removed stats + 1\<rparr>)
            else (insn, stats))
         \<and> (insn_opcode (fst (try_desuperify H tbl caller insn stats)) = OPCODE_INVOKE_VIRTUAL
              \<longleftrightarrow>
              type_class' tbl (method_class caller) \<noteq> None
              \<and> (\<exists>callee_cls.
                     type_class' tbl (method_class (insn_method insn)) = Some callee_cls
                     \<and> \<not> cls_is_interface callee_cls)
              \<and> (\<exists>callee. resolve_method_ref H (method_class caller)
                              (method_name (insn_method insn))
                              (method_proto (insn_method insn)) MethodSearch_Virtual
                            = Some callee
                     \<and> \<not> method_is_external callee \<and> method_is_final callee))"
  using assms
  by (auto simp: try_desuperify_def is_invoke_super_def split: option.splits)

theorem try_desuperify_invoke_super_witness:
  "insn_opcode (ex_insn OPCODE_INVOKE_SUPER (ex_method ''LBase;'' ''f'' True False True))
     = OPCODE_INVOKE_SUPER
   \<and> try_desuperify (ex_H (Some (ex_method ''LBase;'' ''f'' True False True)) None) ex_tbl
       ex_caller (ex_insn OPCODE_INVOKE_SUPER (ex_method ''LBase;'' ''f'' True False True))
       ex_stats
     = (ex_insn OPCODE_INVOKE_VIRTUAL (ex_method ''LBase;'' ''f'' True False True),
        ex_stats\<lparr>num_invoke_super_removed := 1\<rparr>)"
  using try_desuperify_invoke_super
    [where insn = "ex_insn OPCODE_INVOKE_SUPER (ex_method ''LBase;'' ''f'' True False True)"
       and H = "ex_H (Some (ex_method ''LBase;'' ''f'' True False True)) None"
       and tbl = ex_tbl and caller = ex_caller and stats = ex_stats]
  by (simp add: ex_defs)

section \<open>\<^verbatim>\<open>invoke-interface\<close> call sites (C4)\<close>

text \<open>
  C4. When the body of the refinement loop rewrites the method reference of an
  \<^verbatim>\<open>invoke-interface\<close> instruction, the opcode becomes \<^verbatim>\<open>invoke-virtual\<close> if and only if
  the owning class of the new target is not an interface, and stays
  \<^verbatim>\<open>invoke-interface\<close> otherwise. Exactly one counter moves, by one:
  \<open>num_invoke_interface_replaced\<close> when the opcode changed, \<open>num_invoke_virtual_refined\<close>
  when it was kept.
\<close>

theorem invoke_interface_refined:
  assumes "insn_opcode insn = OPCODE_INVOKE_INTERFACE"
    and "refine_insn H P tbl envs caller is_support_lib desuperify specialize_rtype idx insn
           stats rdom = Inr (insn', stats', rdom')"
    and "insn_method insn' \<noteq> insn_method insn"
  shows "\<exists>def_cls. type_class' tbl (method_class (insn_method insn')) = Some def_cls
          \<and> (insn_opcode insn' = OPCODE_INVOKE_VIRTUAL \<longleftrightarrow> \<not> cls_is_interface def_cls)
          \<and> (insn_opcode insn' = OPCODE_INVOKE_INTERFACE \<longleftrightarrow> cls_is_interface def_cls)
          \<and> (if insn_opcode insn' = OPCODE_INVOKE_VIRTUAL
              then stats' = stats\<lparr>num_invoke_interface_replaced :=
                                    num_invoke_interface_replaced stats + 1\<rparr>
              else stats' = stats\<lparr>num_invoke_virtual_refined :=
                                    num_invoke_virtual_refined stats + 1\<rparr>)"
proof -
  have r: "refine_callsite H P tbl envs caller is_support_lib specialize_rtype idx insn stats
             rdom = Inr (insn', stats', rdom')"
    using assms(1,2) by (simp add: refine_insn_not_super)
  have ne: "insn' \<noteq> insn" using assms(3) by auto
  have iface: "is_invoke_interface (insn_opcode insn)"
    using assms(1) by (simp add: is_invoke_interface_def)
  from refine_callsite_changed[OF r ne] obtain def_cls where
    k: "type_class' tbl (method_class (insn_method insn')) = Some def_cls"
    and res: "if is_invoke_interface (insn_opcode insn) \<and> \<not> cls_is_interface def_cls
              then insn' = insn\<lparr>insn_method := insn_method insn',
                                  insn_opcode := OPCODE_INVOKE_VIRTUAL\<rparr>
                   \<and> stats' = stats\<lparr>num_invoke_interface_replaced :=
                                        num_invoke_interface_replaced stats + 1\<rparr>
              else insn' = insn\<lparr>insn_method := insn_method insn'\<rparr>
                   \<and> stats' = stats\<lparr>num_invoke_virtual_refined :=
                                        num_invoke_virtual_refined stats + 1\<rparr>"
    by blast
  show ?thesis
  proof (cases "cls_is_interface def_cls")
    case True
    with res have "insn_opcode insn' = OPCODE_INVOKE_INTERFACE"
      and "stats' = stats\<lparr>num_invoke_virtual_refined := num_invoke_virtual_refined stats + 1\<rparr>"
      using assms(1) by (auto dest: arg_cong[where f = insn_opcode])
    with k True show ?thesis by auto
  next
    case False
    with res iface have "insn_opcode insn' = OPCODE_INVOKE_VIRTUAL"
      and "stats' = stats\<lparr>num_invoke_interface_replaced :=
                             num_invoke_interface_replaced stats + 1\<rparr>"
      by (auto dest: arg_cong[where f = insn_opcode])
    with k False show ?thesis by auto
  qed
qed

theorem invoke_interface_refined_witness:
  "refine_insn (ex_H (Some ex_Derived_m) (Some ''LDerived;'')) (ex_P False None) ex_tbl
      (type_inference (ex_H (Some ex_Derived_m) (Some ''LDerived;'')) ex_caller [])
      ex_caller False True True 0 (ex_insn OPCODE_INVOKE_INTERFACE ex_Iface_m) ex_stats []
     = Inr (ex_insn OPCODE_INVOKE_VIRTUAL ex_Derived_m,
            ex_stats\<lparr>num_invoke_interface_replaced := 1\<rparr>, [])
   \<and> insn_method (ex_insn OPCODE_INVOKE_VIRTUAL ex_Derived_m)
       \<noteq> insn_method (ex_insn OPCODE_INVOKE_INTERFACE ex_Iface_m)
   \<and> map_option cls_is_interface (type_class' ex_tbl (method_class ex_Derived_m)) = Some False
   \<and> refine_insn (ex_H (Some ex_Iface_m) (Some ''LIface;'')) (ex_P False None) ex_tbl
      (type_inference (ex_H (Some ex_Iface_m) (Some ''LIface;'')) ex_caller [])
      ex_caller False True True 0
      (ex_insn OPCODE_INVOKE_INTERFACE (ex_method ''LSubIface;'' ''m'' False False False))
      ex_stats []
     = Inr (ex_insn OPCODE_INVOKE_INTERFACE ex_Iface_m,
            ex_stats\<lparr>num_invoke_virtual_refined := 1\<rparr>, [])
   \<and> map_option cls_is_interface (type_class' ex_tbl (method_class ex_Iface_m)) = Some True"
proof -
  have r: "refine_insn (ex_H (Some ex_Derived_m) (Some ''LDerived;'')) (ex_P False None) ex_tbl
      (type_inference (ex_H (Some ex_Derived_m) (Some ''LDerived;'')) ex_caller [])
      ex_caller False True True 0 (ex_insn OPCODE_INVOKE_INTERFACE ex_Iface_m) ex_stats []
     = Inr (ex_insn OPCODE_INVOKE_VIRTUAL ex_Derived_m,
            ex_stats\<lparr>num_invoke_interface_replaced := 1\<rparr>, [])"
    by (simp add: resolver_defs ex_defs)
  have o: "insn_opcode (ex_insn OPCODE_INVOKE_INTERFACE ex_Iface_m) = OPCODE_INVOKE_INTERFACE"
    by (simp add: ex_defs)
  have n: "insn_method (ex_insn OPCODE_INVOKE_VIRTUAL ex_Derived_m)
             \<noteq> insn_method (ex_insn OPCODE_INVOKE_INTERFACE ex_Iface_m)"
    by (simp add: ex_defs)
  show ?thesis
    using invoke_interface_refined[OF o r n] r n
    by (simp add: resolver_defs ex_defs)
qed

section \<open>Method references in the first walk (C5)\<close>

text \<open>
  C5 as it is stated fails for the direct dispatch kind: the switch of
  \<^verbatim>\<open>resolve_refs\<close> has no arm for \<^verbatim>\<open>invoke-direct\<close>. Here the reference of an
  \<^verbatim>\<open>invoke-direct\<close> instruction resolves to a definition that is not null and differs
  from the reference, and \<^verbatim>\<open>resolve_refs\<close> returns the method's code as it was, with
  no reference counted.
\<close>

theorem invoke_direct_not_resolved_counterexample:
  "resolve_method (ex_H (Some ex_Base_n) None)
      (insn_method (ex_insn OPCODE_INVOKE_DIRECT ex_Derived_n_ref))
      (opcode_to_search (ex_H (Some ex_Base_n) None)
         (ex_insn OPCODE_INVOKE_DIRECT ex_Derived_n_ref)) ex_caller
     = Some ex_Base_n
   \<and> ex_Base_n \<noteq> insn_method (ex_insn OPCODE_INVOKE_DIRECT ex_Derived_n_ref)
   \<and> resolve_refs (ex_H (Some ex_Base_n) None) (ex_P True (Some (\<lambda>m. True)))
        (Some \<lparr>method_ref = ex_caller,
               get_code = Some [ex_insn OPCODE_INVOKE_DIRECT ex_Derived_n_ref]\<rparr>) ex_tbl
      = Inr (ex_stats,
             Some \<lparr>method_ref = ex_caller,
                   get_code = Some [ex_insn OPCODE_INVOKE_DIRECT ex_Derived_n_ref]\<rparr>,
             ex_tbl)"
  by (simp add: resolver_defs ex_defs)

text \<open>
  C5, amended. \<^verbatim>\<open>resolve_refs\<close> attempts the resolution of the method reference for
  every invoke instruction of the dispatch kinds virtual, super, interface and static,
  and leaves an \<^verbatim>\<open>invoke-direct\<close> instruction as it is. The reference is resolved
  against the class hierarchy by \<^verbatim>\<open>resolve_method\<close>; the instruction is left unchanged
  when the resolution is null or is the reference itself, and it is rewritten to the
  resolution, with \<open>num_mref_resolved\<close> incremented, when the resolution is not null,
  differs from the reference, passes the gate on external definitions, and its owning
  class is defined and is not a non-public external class. Every instruction of the
  code is handled so, in order.
\<close>

theorem resolve_refs_invoke_kinds:
  "(insn_opcode insn \<in> {OPCODE_INVOKE_VIRTUAL, OPCODE_INVOKE_SUPER, OPCODE_INVOKE_INTERFACE,
                         OPCODE_INVOKE_STATIC}
     \<longrightarrow> resolve_refs_insn H P caller insn stats tbl
           = resolve_method_refs H P caller insn stats tbl)
   \<and> (insn_opcode insn = OPCODE_INVOKE_DIRECT
     \<longrightarrow> resolve_refs_insn H P caller insn stats tbl = Inr (insn, stats, tbl))
   \<and> (has_method insn
      \<and> (resolve_method H (insn_method insn) (opcode_to_search H insn) caller = None
         \<or> resolve_method H (insn_method insn) (opcode_to_search H insn) caller
             = Some (insn_method insn))
     \<longrightarrow> resolve_method_refs H P caller insn stats tbl = Inr (insn, stats, tbl))
   \<and> (has_method insn
      \<and> resolve_method H (insn_method insn) (opcode_to_search H insn) caller = Some mdef
      \<and> mdef \<noteq> insn_method insn
      \<and> (\<not> method_is_external mdef
         \<or> (m_refine_to_external P \<and> min_sdk_has_method P mdef = Inr True))
      \<and> type_class' tbl (method_class mdef) = Some cls
      \<and> \<not> (cls_is_external cls \<and> \<not> cls_is_public cls)
     \<longrightarrow> resolve_method_refs H P caller insn stats tbl
           = Inr (insn\<lparr>insn_method := mdef\<rparr>,
                  stats\<lparr>num_mref_resolved := num_mref_resolved stats + 1\<rparr>,
                  if cls_is_public cls then tbl else set_public tbl (method_class mdef)))
   \<and> (resolve_refs_loop H P caller code stats tbl = Inr (code', stats', tbl')
     \<longrightarrow> length code' = length code
         \<and> (\<forall>i<length code. \<exists>s t s2 t2.
               resolve_refs_insn H P caller (code ! i) s t = Inr (code' ! i, s2, t2)))"
proof (intro conjI impI)
  assume "insn_opcode insn \<in> {OPCODE_INVOKE_VIRTUAL, OPCODE_INVOKE_SUPER,
                               OPCODE_INVOKE_INTERFACE, OPCODE_INVOKE_STATIC}"
  then have "resolve_refs_arm (insn_opcode insn) = Arm_invoke"
    by auto
  then show "resolve_refs_insn H P caller insn stats tbl
               = resolve_method_refs H P caller insn stats tbl"
    by (simp add: resolve_refs_insn_def)
next
  assume "insn_opcode insn = OPCODE_INVOKE_DIRECT"
  then show "resolve_refs_insn H P caller insn stats tbl = Inr (insn, stats, tbl)"
    by (simp add: resolve_refs_insn_def)
next
  assume "has_method insn
      \<and> (resolve_method H (insn_method insn) (opcode_to_search H insn) caller = None
         \<or> resolve_method H (insn_method insn) (opcode_to_search H insn) caller
             = Some (insn_method insn))"
  then show "resolve_method_refs H P caller insn stats tbl = Inr (insn, stats, tbl)"
    by (auto simp: resolve_method_refs_def)
next
  assume "has_method insn
      \<and> resolve_method H (insn_method insn) (opcode_to_search H insn) caller = Some mdef
      \<and> mdef \<noteq> insn_method insn
      \<and> (\<not> method_is_external mdef
         \<or> (m_refine_to_external P \<and> min_sdk_has_method P mdef = Inr True))
      \<and> type_class' tbl (method_class mdef) = Some cls
      \<and> \<not> (cls_is_external cls \<and> \<not> cls_is_public cls)"
  then show "resolve_method_refs H P caller insn stats tbl
           = Inr (insn\<lparr>insn_method := mdef\<rparr>,
                  stats\<lparr>num_mref_resolved := num_mref_resolved stats + 1\<rparr>,
                  if cls_is_public cls then tbl else set_public tbl (method_class mdef))"
    by (auto simp: resolve_method_refs_def Let_def)
next
  assume "resolve_refs_loop H P caller code stats tbl = Inr (code', stats', tbl')"
  then show "length code' = length code"
    and "\<forall>i<length code. \<exists>s t s2 t2.
           resolve_refs_insn H P caller (code ! i) s t = Inr (code' ! i, s2, t2)"
    using resolve_refs_loop_pointwise by blast+
qed

theorem resolve_refs_invoke_kinds_witness:
  "resolve_refs (ex_H (Some ex_Base_n) None) (ex_P True (Some (\<lambda>m. True)))
      (Some \<lparr>method_ref = ex_caller,
             get_code = Some [ex_insn OPCODE_INVOKE_STATIC ex_Derived_n_ref,
                              ex_insn OPCODE_INVOKE_DIRECT ex_Derived_n_ref]\<rparr>) ex_tbl
     = Inr (ex_stats\<lparr>num_mref_resolved := 1\<rparr>,
            Some \<lparr>method_ref = ex_caller,
                  get_code = Some [ex_insn OPCODE_INVOKE_STATIC ex_Base_n,
                                   ex_insn OPCODE_INVOKE_DIRECT ex_Derived_n_ref]\<rparr>,
            ex_tbl)
   \<and> resolve_refs_insn (ex_H (Some ex_Base_n) None) (ex_P True (Some (\<lambda>m. True))) ex_caller
       (ex_insn OPCODE_INVOKE_STATIC ex_Derived_n_ref) ex_stats ex_tbl
     = Inr (ex_insn OPCODE_INVOKE_STATIC ex_Base_n, ex_stats\<lparr>num_mref_resolved := 1\<rparr>, ex_tbl)"
  using resolve_refs_invoke_kinds
    [where insn = "ex_insn OPCODE_INVOKE_STATIC ex_Derived_n_ref"
       and H = "ex_H (Some ex_Base_n) None" and P = "ex_P True (Some (\<lambda>m. True))"
       and caller = ex_caller and stats = ex_stats and tbl = ex_tbl and mdef = ex_Base_n
       and cls = "\<lparr>cls_is_external = False, cls_is_public = True, cls_is_interface = False\<rparr>"
       and code = "[ex_insn OPCODE_INVOKE_STATIC ex_Derived_n_ref,
                    ex_insn OPCODE_INVOKE_DIRECT ex_Derived_n_ref]"
       and code' = "[ex_insn OPCODE_INVOKE_STATIC ex_Base_n,
                     ex_insn OPCODE_INVOKE_DIRECT ex_Derived_n_ref]"
       and stats' = "ex_stats\<lparr>num_mref_resolved := 1\<rparr>" and tbl' = ex_tbl]
  by (simp add: resolver_defs ex_defs)

section \<open>Field references (C6)\<close>

text \<open>
  C6 as it is stated fails in its last part: \<^verbatim>\<open>resolve_field_refs\<close> returns before
  \<^verbatim>\<open>set_public\<close> when the owning class is external. Here the field reference
  \<open>LDerived;.x\<close> resolves to a non-external definition in \<open>Landroid/Hidden;\<close>, an
  external class that is not public: the operand is rewritten, the counter is
  incremented, and the class is as little public as before.
\<close>

theorem external_owner_not_made_public_counterexample:
  "\<not> field_is_def (ex_field ''LDerived;'' ''x'' False False)
   \<and> resolve_field (ex_HF (Some (ex_field ''Landroid/Hidden;'' ''x'' True False)))
        (ex_field ''LDerived;'' ''x'' False False) FieldSearch_Static
      = Some (ex_field ''Landroid/Hidden;'' ''x'' True False)
   \<and> \<not> field_is_external (ex_field ''Landroid/Hidden;'' ''x'' True False)
   \<and> ex_field ''Landroid/Hidden;'' ''x'' True False \<noteq> ex_field ''LDerived;'' ''x'' False False
   \<and> resolve_field_refs (ex_HF (Some (ex_field ''Landroid/Hidden;'' ''x'' True False)))
        FieldSearch_Static (ex_field_insn OPCODE_SGET (ex_field ''LDerived;'' ''x'' False False))
        ex_stats ex_tbl
      = Inr (ex_field_insn OPCODE_SGET (ex_field ''Landroid/Hidden;'' ''x'' True False),
             ex_stats\<lparr>num_fref_resolved := 1\<rparr>, ex_tbl)
   \<and> map_option cls_is_public (type_class' ex_tbl ''Landroid/Hidden;'') = Some False"
  by (simp add: resolver_defs ex_defs)

text \<open>
  C6, amended. For a field access instruction (\<^verbatim>\<open>sget*\<close>/\<^verbatim>\<open>sput*\<close> with the static
  field search, \<^verbatim>\<open>iget*\<close>/\<^verbatim>\<open>iput*\<close> with the instance field search): if the field
  reference is already a definition the instruction is left unchanged; otherwise, if
  the lookup finds a non-external definition different from the reference, whose owning
  class has a definition, the field operand is rewritten to it, \<open>num_fref_resolved\<close> is
  incremented by one, and the owning class ends up public unless it is external, in
  which case the class table is left as it is. No other class changes.
\<close>

theorem resolve_field_refs_rewrite:
  "(field_is_def (insn_field insn)
     \<longrightarrow> resolve_field_refs H field_search insn stats tbl = Inr (insn, stats, tbl))
   \<and> (\<not> field_is_def (insn_field insn)
      \<and> resolve_field H (insn_field insn) field_search = Some real_ref
      \<and> \<not> field_is_external real_ref \<and> real_ref \<noteq> insn_field insn
      \<and> type_class' tbl (field_class real_ref) = Some cls
     \<longrightarrow> (\<exists>tbl'. resolve_field_refs H field_search insn stats tbl
                   = Inr (insn\<lparr>insn_field := real_ref\<rparr>,
                          stats\<lparr>num_fref_resolved := num_fref_resolved stats + 1\<rparr>, tbl')
               \<and> (if cls_is_external cls then tbl' = tbl
                   else map_option cls_is_public (type_class' tbl' (field_class real_ref))
                          = Some True)
               \<and> (\<forall>t. t \<noteq> field_class real_ref \<longrightarrow> tbl' t = tbl t)))
   \<and> (insn_opcode insn \<in> {OPCODE_SGET, OPCODE_SGET_WIDE, OPCODE_SGET_OBJECT,
          OPCODE_SGET_BOOLEAN, OPCODE_SGET_BYTE, OPCODE_SGET_CHAR, OPCODE_SGET_SHORT,
          OPCODE_SPUT, OPCODE_SPUT_WIDE, OPCODE_SPUT_OBJECT, OPCODE_SPUT_BOOLEAN,
          OPCODE_SPUT_BYTE, OPCODE_SPUT_CHAR, OPCODE_SPUT_SHORT}
     \<longrightarrow> resolve_refs_insn H P caller insn stats tbl
           = resolve_field_refs H FieldSearch_Static insn stats tbl)
   \<and> (insn_opcode insn \<in> {OPCODE_IGET, OPCODE_IGET_WIDE, OPCODE_IGET_OBJECT,
          OPCODE_IGET_BOOLEAN, OPCODE_IGET_BYTE, OPCODE_IGET_CHAR, OPCODE_IGET_SHORT,
          OPCODE_IPUT, OPCODE_IPUT_WIDE, OPCODE_IPUT_OBJECT, OPCODE_IPUT_BOOLEAN,
          OPCODE_IPUT_BYTE, OPCODE_IPUT_CHAR, OPCODE_IPUT_SHORT}
     \<longrightarrow> resolve_refs_insn H P caller insn stats tbl
           = resolve_field_refs H FieldSearch_Instance insn stats tbl)"
proof (intro conjI impI)
  assume "field_is_def (insn_field insn)"
  then show "resolve_field_refs H field_search insn stats tbl = Inr (insn, stats, tbl)"
    by (simp add: resolve_field_refs_def)
next
  assume a: "\<not> field_is_def (insn_field insn)
      \<and> resolve_field H (insn_field insn) field_search = Some real_ref
      \<and> \<not> field_is_external real_ref \<and> real_ref \<noteq> insn_field insn
      \<and> type_class' tbl (field_class real_ref) = Some cls"
  let ?tbl' = "if cls_is_public cls \<or> cls_is_external cls then tbl
               else set_public tbl (field_class real_ref)"
  have r: "resolve_field_refs H field_search insn stats tbl
             = Inr (insn\<lparr>insn_field := real_ref\<rparr>,
                    stats\<lparr>num_fref_resolved := num_fref_resolved stats + 1\<rparr>, ?tbl')"
    using a by (auto simp: resolve_field_refs_def Let_def)
  have p: "if cls_is_external cls then ?tbl' = tbl
           else map_option cls_is_public (type_class' ?tbl' (field_class real_ref)) = Some True"
    using a by (auto simp: set_public_def type_class'_def)
  have o: "\<forall>t. t \<noteq> field_class real_ref \<longrightarrow> ?tbl' t = tbl t"
    by (auto simp: set_public_def split: option.splits)
  show "\<exists>tbl'. resolve_field_refs H field_search insn stats tbl
                   = Inr (insn\<lparr>insn_field := real_ref\<rparr>,
                          stats\<lparr>num_fref_resolved := num_fref_resolved stats + 1\<rparr>, tbl')
               \<and> (if cls_is_external cls then tbl' = tbl
                   else map_option cls_is_public (type_class' tbl' (field_class real_ref))
                          = Some True)
               \<and> (\<forall>t. t \<noteq> field_class real_ref \<longrightarrow> tbl' t = tbl t)"
    using r p o by blast
next
  assume "insn_opcode insn \<in> {OPCODE_SGET, OPCODE_SGET_WIDE, OPCODE_SGET_OBJECT,
          OPCODE_SGET_BOOLEAN, OPCODE_SGET_BYTE, OPCODE_SGET_CHAR, OPCODE_SGET_SHORT,
          OPCODE_SPUT, OPCODE_SPUT_WIDE, OPCODE_SPUT_OBJECT, OPCODE_SPUT_BOOLEAN,
          OPCODE_SPUT_BYTE, OPCODE_SPUT_CHAR, OPCODE_SPUT_SHORT}"
  then have "resolve_refs_arm (insn_opcode insn) = Arm_static_field"
    by auto
  then show "resolve_refs_insn H P caller insn stats tbl
               = resolve_field_refs H FieldSearch_Static insn stats tbl"
    by (simp add: resolve_refs_insn_def)
next
  assume "insn_opcode insn \<in> {OPCODE_IGET, OPCODE_IGET_WIDE, OPCODE_IGET_OBJECT,
          OPCODE_IGET_BOOLEAN, OPCODE_IGET_BYTE, OPCODE_IGET_CHAR, OPCODE_IGET_SHORT,
          OPCODE_IPUT, OPCODE_IPUT_WIDE, OPCODE_IPUT_OBJECT, OPCODE_IPUT_BOOLEAN,
          OPCODE_IPUT_BYTE, OPCODE_IPUT_CHAR, OPCODE_IPUT_SHORT}"
  then have "resolve_refs_arm (insn_opcode insn) = Arm_instance_field"
    by auto
  then show "resolve_refs_insn H P caller insn stats tbl
               = resolve_field_refs H FieldSearch_Instance insn stats tbl"
    by (simp add: resolve_refs_insn_def)
qed

theorem resolve_field_refs_rewrite_witness:
  "resolve_refs_insn (ex_HF (Some (ex_field ''LDerived;'' ''x'' True False))) (ex_P False None)
      ex_caller (ex_field_insn OPCODE_IGET (ex_field ''LSub;'' ''x'' False False)) ex_stats ex_tbl
     = Inr (ex_field_insn OPCODE_IGET (ex_field ''LDerived;'' ''x'' True False),
            ex_stats\<lparr>num_fref_resolved := 1\<rparr>, set_public ex_tbl ''LDerived;'')
   \<and> map_option cls_is_public (type_class' ex_tbl ''LDerived;'') = Some False
   \<and> map_option cls_is_public (type_class' (set_public ex_tbl ''LDerived;'') ''LDerived;'')
       = Some True
   \<and> resolve_field_refs (ex_HF (Some (ex_field ''LBase;'' ''y'' True False))) FieldSearch_Static
      (ex_field_insn OPCODE_SGET (ex_field ''LDerived;'' ''x'' True False)) ex_stats ex_tbl
     = Inr (ex_field_insn OPCODE_SGET (ex_field ''LDerived;'' ''x'' True False), ex_stats, ex_tbl)"
  using resolve_field_refs_rewrite
    [where insn = "ex_field_insn OPCODE_IGET (ex_field ''LSub;'' ''x'' False False)"
       and H = "ex_HF (Some (ex_field ''LDerived;'' ''x'' True False))"
       and field_search = FieldSearch_Instance
       and real_ref = "ex_field ''LDerived;'' ''x'' True False" and tbl = ex_tbl
       and cls = "\<lparr>cls_is_external = False, cls_is_public = False, cls_is_interface = False\<rparr>"
       and stats = ex_stats and P = "ex_P False None" and caller = ex_caller]
    resolve_field_refs_rewrite
    [where insn = "ex_field_insn OPCODE_SGET (ex_field ''LDerived;'' ''x'' True False)"
       and H = "ex_HF (Some (ex_field ''LBase;'' ''y'' True False))"
       and field_search = FieldSearch_Static and tbl = ex_tbl and stats = ex_stats]
  by (simp add: resolver_defs ex_defs)

section \<open>Excluded externals (C7)\<close>

text \<open>
  C7 as it is stated fails: the prefix list is consulted only for a target whose owning
  class is external. Here the inferred target \<open>LDerived;.m:()V\<close> belongs to a class of
  the program and its name starts with the excluded prefix \<open>LDerived;\<close>; yet
  \<^verbatim>\<open>get_inferred_method_def\<close> returns it and the call site is rewritten to it.
\<close>

theorem excluded_prefix_internal_target_counterexample:
  "prefix ''LDerived;'' (show_method (ex_H (Some ex_Derived_m) (Some ''LDerived;'')) ex_Derived_m)
   \<and> get_inferred_method_def (ex_H (Some ex_Derived_m) (Some ''LDerived;'')) ex_tbl ex_caller
        [''LDerived;''] False ex_Base_m ''LDerived;''
      = Some ex_Derived_m
   \<and> refine_callsite (ex_H (Some ex_Derived_m) (Some ''LDerived;''))
        ((ex_P False None)\<lparr>m_excluded_externals := [''LDerived;'']\<rparr>) ex_tbl
        (type_inference (ex_H (Some ex_Derived_m) (Some ''LDerived;'')) ex_caller [])
        ex_caller False False 0 (ex_insn OPCODE_INVOKE_VIRTUAL ex_Base_m) ex_stats []
      = Inr (ex_insn OPCODE_INVOKE_VIRTUAL ex_Derived_m,
             ex_stats\<lparr>num_invoke_virtual_refined := 1\<rparr>, [])"
  by (simp add: resolver_defs ex_defs)

text \<open>
  C7, amended. During the refinement of virtual call sites, a rewrite to the inferred
  target is rejected whenever the owning class of the resolved target is external and
  the target's name starts with a prefix in \<open>excluded_externals\<close>: for every such target
  \<^verbatim>\<open>get_inferred_method_def\<close> returns none and the call site is left unchanged.
\<close>

theorem excluded_external_target_rejected:
  assumes "resolve_method_cls H (class_ptr tbl inferred_type) (method_name callee)
             (method_proto callee) MethodSearch_Virtual = Some resolved"
    and "type_class' tbl (method_class resolved) = Some resolved_cls"
    and "cls_is_external resolved_cls"
    and "p \<in> set excluded_externals"
    and "prefix p (show_method H resolved)"
  shows "get_inferred_method_def H tbl caller excluded_externals is_support_lib callee
           inferred_type = None
         \<and> ((is_invoke_virtual (insn_opcode insn) \<or> is_invoke_interface (insn_opcode insn))
              \<and> m_excluded_externals P = excluded_externals
              \<and> resolve_method H (insn_method insn) (opcode_to_search H insn) caller
                  = Some callee
              \<and> src insn 0 = Inr this_reg
              \<and> get_dex_type envs idx this_reg = Some inferred_type
             \<longrightarrow> refine_callsite H P tbl envs caller is_support_lib specialize_rtype idx insn
                   stats rdom = Inr (insn, stats, rdom))"
proof -
  have ex: "is_excluded_external excluded_externals (show_method H resolved)"
    using assms(4,5) is_excluded_external_iff by blast
  have none: "get_inferred_method_def H tbl caller excluded_externals is_support_lib callee
                inferred_type = None"
    by (rule get_inferred_method_def_excluded[OF assms(1,2,3) ex])
  show ?thesis
  proof (intro conjI impI)
    show "get_inferred_method_def H tbl caller excluded_externals is_support_lib callee
            inferred_type = None"
      by (rule none)
  next
    assume a: "(is_invoke_virtual (insn_opcode insn) \<or> is_invoke_interface (insn_opcode insn))
              \<and> m_excluded_externals P = excluded_externals
              \<and> resolve_method H (insn_method insn) (opcode_to_search H insn) caller
                  = Some callee
              \<and> src insn 0 = Inr this_reg
              \<and> get_dex_type envs idx this_reg = Some inferred_type"
    then have "get_inferred_method_def H tbl caller (m_excluded_externals P) is_support_lib
                 callee inferred_type = None"
      using none by simp
    with a show "refine_callsite H P tbl envs caller is_support_lib specialize_rtype idx insn
                   stats rdom = Inr (insn, stats, rdom)"
      by (elim conjE) (rule refine_callsite_no_target; assumption)
  qed
qed

theorem excluded_external_target_rejected_witness:
  "map_option cls_is_external (type_class' ex_tbl (method_class ex_Hidden_draw)) = Some True
   \<and> ''Landroid/Hidden;'' \<in> set (m_excluded_externals (ex_P True (Some (\<lambda>m. True))))
   \<and> prefix ''Landroid/Hidden;''
        (show_method (ex_H (Some ex_Hidden_draw) (Some ''Landroid/Hidden;'')) ex_Hidden_draw)
   \<and> get_inferred_method_def (ex_H (Some ex_Hidden_draw) (Some ''Landroid/Hidden;'')) ex_tbl
        ex_caller [''Landroid/Hidden;''] False ex_Hidden_draw ''Landroid/Hidden;'' = None
   \<and> refine_callsite (ex_H (Some ex_Hidden_draw) (Some ''Landroid/Hidden;''))
        (ex_P True (Some (\<lambda>m. True))) ex_tbl
        (type_inference (ex_H (Some ex_Hidden_draw) (Some ''Landroid/Hidden;'')) ex_caller [])
        ex_caller False False 0 (ex_insn OPCODE_INVOKE_VIRTUAL ex_Derived_draw_ref) ex_stats []
      = Inr (ex_insn OPCODE_INVOKE_VIRTUAL ex_Derived_draw_ref, ex_stats, [])"
  using excluded_external_target_rejected
    [where H = "ex_H (Some ex_Hidden_draw) (Some ''Landroid/Hidden;'')" and tbl = ex_tbl
       and inferred_type = "''Landroid/Hidden;''" and callee = ex_Hidden_draw
       and resolved = ex_Hidden_draw
       and resolved_cls = "\<lparr>cls_is_external = True, cls_is_public = False,
                             cls_is_interface = False\<rparr>"
       and p = "''Landroid/Hidden;''" and excluded_externals = "[''Landroid/Hidden;'']"
       and caller = ex_caller and is_support_lib = False
       and insn = "ex_insn OPCODE_INVOKE_VIRTUAL ex_Derived_draw_ref"
       and P = "ex_P True (Some (\<lambda>m. True))" and this_reg = 0 and idx = 0
       and envs = "type_inference (ex_H (Some ex_Hidden_draw) (Some ''Landroid/Hidden;''))
                     ex_caller []"
       and specialize_rtype = False and stats = ex_stats and rdom = "[]"]
  by (simp add: ex_defs class_ptr_def is_invoke_virtual_def src_def)

section \<open>Return type specialization and the second walk (C8)\<close>

lemma try_desuperify_keeps:
  "rtype_candidates (snd (try_desuperify H tbl caller insn stats)) = rtype_candidates stats
   \<and> (insn_opcode (fst (try_desuperify H tbl caller insn stats)) = OPCODE_RETURN_OBJECT
        \<longleftrightarrow> insn_opcode insn = OPCODE_RETURN_OBJECT)
   \<and> insn_srcs (fst (try_desuperify H tbl caller insn stats)) = insn_srcs insn"
  by (auto simp: try_desuperify_def is_invoke_super_def split: option.splits)

lemma refine_callsite_collects:
  assumes "refine_callsite H P tbl envs caller is_support_lib specialize_rtype idx insn stats
             rdom = Inr (insn', stats', rdom')"
  shows "(rtype_candidates stats', rdom') =
           (if specialize_rtype \<and> insn_opcode insn = OPCODE_RETURN_OBJECT
            then collect_inferred_rtype H (rtype_candidates stats) caller
                   (get_type_domain envs idx (insn_srcs insn ! 0)) rdom
            else (rtype_candidates stats, rdom))
         \<and> num_invoke_super_removed stats' = num_invoke_super_removed stats
         \<and> insn_srcs insn' = insn_srcs insn
         \<and> (insn_opcode insn = OPCODE_INVOKE_SUPER \<longrightarrow> insn' = insn)"
proof (cases "specialize_rtype \<and> is_return_object (insn_opcode insn)")
  case True
  then show ?thesis
    using assms
    by (auto simp: refine_callsite_def Let_def src_def is_return_object_def
             split: if_splits prod.splits)
next
  case False
  show ?thesis
  proof (cases "is_invoke_virtual (insn_opcode insn) \<or> is_invoke_interface (insn_opcode insn)")
    case inv: True
    then have o: "insn_opcode insn \<noteq> OPCODE_INVOKE_SUPER"
      "insn_opcode insn \<noteq> OPCODE_RETURN_OBJECT"
      by (auto simp: is_invoke_virtual_def is_invoke_interface_def)
    show ?thesis
      using assms o unfolding refine_callsite_invoke[OF inv]
      by (auto split: option.splits sum.splits if_splits)
  next
    case noinv: False
    then have "refine_callsite H P tbl envs caller is_support_lib specialize_rtype idx insn
                 stats rdom = Inr (insn, stats, rdom)"
      using False by (intro refine_callsite_no_invoke) auto
    then show ?thesis
      using assms False by (auto simp: is_return_object_def)
  qed
qed

lemma refine_insn_collects:
  assumes "refine_insn H P tbl envs caller is_support_lib desuperify specialize_rtype idx insn
             stats rdom = Inr (insn', stats', rdom')"
  shows "(rtype_candidates stats', rdom') =
           (if specialize_rtype \<and> insn_opcode insn = OPCODE_RETURN_OBJECT
            then collect_inferred_rtype H (rtype_candidates stats) caller
                   (get_type_domain envs idx (insn_srcs insn ! 0)) rdom
            else (rtype_candidates stats, rdom))
         \<and> (\<not> desuperify \<longrightarrow>
               num_invoke_super_removed stats' = num_invoke_super_removed stats
               \<and> (insn_opcode insn = OPCODE_INVOKE_SUPER \<longrightarrow> insn' = insn))"
proof -
  obtain dinsn dstats where d:
    "(if desuperify then try_desuperify H tbl caller insn stats else (insn, stats))
       = (dinsn, dstats)"
    by (cases "if desuperify then try_desuperify H tbl caller insn stats else (insn, stats)")
  have k: "rtype_candidates dstats = rtype_candidates stats"
    "insn_opcode dinsn = OPCODE_RETURN_OBJECT \<longleftrightarrow> insn_opcode insn = OPCODE_RETURN_OBJECT"
    "insn_srcs dinsn = insn_srcs insn"
    "\<not> desuperify \<longrightarrow> dinsn = insn \<and> dstats = stats"
    using d try_desuperify_keeps[of H tbl caller insn stats] by (auto split: if_splits)
  have r: "refine_callsite H P tbl envs caller is_support_lib specialize_rtype idx dinsn dstats
             rdom = Inr (insn', stats', rdom')"
    using assms d by (simp add: refine_insn_def)
  from refine_callsite_collects[OF r] show ?thesis
    using k by auto
qed

lemma refine_loop_collects:
  "refine_loop H P tbl envs caller is_support_lib desuperify specialize_rtype idx code stats rdom
     = Inr (code', stats', rdom')
   \<Longrightarrow> (rtype_candidates stats', rdom') =
         (if specialize_rtype
          then spec_collected_rtypes H envs caller idx code (rtype_candidates stats, rdom)
          else (rtype_candidates stats, rdom))
       \<and> length code' = length code
       \<and> (\<not> desuperify \<longrightarrow>
             num_invoke_super_removed stats' = num_invoke_super_removed stats
             \<and> (\<forall>i<length code. insn_opcode (code ! i) = OPCODE_INVOKE_SUPER
                    \<longrightarrow> code' ! i = code ! i))"
proof (induction code arbitrary: idx stats rdom code')
  case Nil
  then show ?case by simp
next
  case (Cons insn rest)
  from Cons.prems obtain insn1 stats1 rdom1 rest1 where
    step: "refine_insn H P tbl envs caller is_support_lib desuperify specialize_rtype idx insn
             stats rdom = Inr (insn1, stats1, rdom1)"
    and tail: "refine_loop H P tbl envs caller is_support_lib desuperify specialize_rtype
                 (Suc idx) rest stats1 rdom1 = Inr (rest1, stats', rdom')"
    and code': "code' = insn1 # rest1"
    by (auto split: sum.splits prod.splits)
  note s = refine_insn_collects[OF step]
  note t = Cons.IH[OF tail]
  have c: "(rtype_candidates stats', rdom') =
         (if specialize_rtype
          then spec_collected_rtypes H envs caller idx (insn # rest) (rtype_candidates stats, rdom)
          else (rtype_candidates stats, rdom))"
    using s t by (cases "collect_inferred_rtype H (rtype_candidates stats) caller
                   (get_type_domain envs idx (insn_srcs insn ! 0)) rdom") (auto split: if_splits)
  have l: "length code' = length (insn # rest)"
    using t code' by simp
  have n: "\<not> desuperify \<longrightarrow>
             num_invoke_super_removed stats' = num_invoke_super_removed stats
             \<and> (\<forall>i<length (insn # rest). insn_opcode ((insn # rest) ! i) = OPCODE_INVOKE_SUPER
                    \<longrightarrow> code' ! i = (insn # rest) ! i)"
  proof
    assume nd: "\<not> desuperify"
    have "code' ! i = (insn # rest) ! i"
      if "i < length (insn # rest)" "insn_opcode ((insn # rest) ! i) = OPCODE_INVOKE_SUPER" for i
    proof (cases i)
      case 0
      then show ?thesis using s nd that code' by simp
    next
      case (Suc j)
      then show ?thesis using t nd that code' by simp
    qed
    then show "num_invoke_super_removed stats' = num_invoke_super_removed stats
             \<and> (\<forall>i<length (insn # rest). insn_opcode ((insn # rest) ! i) = OPCODE_INVOKE_SUPER
                    \<longrightarrow> code' ! i = (insn # rest) ! i)"
      using s t nd by simp
  qed
  show ?case using c l n by blast
qed

lemma refine_virtual_callsites_collects:
  assumes "refine_virtual_callsites H P tbl (Some m) desuperify specialize_rtype
             = Inr (stats, meth')"
    and "get_code m = Some code"
  shows "rtype_candidates stats =
           (if specialize_rtype
            then collect_specializable_rtype H
                   (fst (spec_collected_rtypes H (type_inference H (method_ref m) code)
                           (method_ref m) 0 code
                           (rtype_candidates_empty H, rtype_domain_bottom H)))
                   (method_ref m)
                   (snd (spec_collected_rtypes H (type_inference H (method_ref m) code)
                           (method_ref m) 0 code
                           (rtype_candidates_empty H, rtype_domain_bottom H)))
            else collect_specializable_rtype H (rtype_candidates_empty H) (method_ref m)
                   (rtype_domain_bottom H))
         \<and> (\<not> desuperify \<longrightarrow>
               num_invoke_super_removed stats = 0
               \<and> (\<exists>code'. meth' = Some (m\<lparr>get_code := Some code'\<rparr>)
                     \<and> length code' = length code
                     \<and> (\<forall>i<length code. insn_opcode (code ! i) = OPCODE_INVOKE_SUPER
                            \<longrightarrow> code' ! i = code ! i)))"
proof -
  from assms obtain code' lstats rdom' where
    loop: "refine_loop H P tbl (type_inference H (method_ref m) code) (method_ref m)
             (is_support_lib_type H (method_class (method_ref m))) desuperify specialize_rtype
             0 code (RefStats_init H) (rtype_domain_bottom H) = Inr (code', lstats, rdom')"
    and stats: "stats = lstats\<lparr>rtype_candidates :=
                  collect_specializable_rtype H (rtype_candidates lstats) (method_ref m) rdom'\<rparr>"
    and meth': "meth' = Some (m\<lparr>get_code := Some code'\<rparr>)"
    by (auto simp: refine_virtual_callsites_def Let_def split: sum.splits prod.splits)
  note c = refine_loop_collects[OF loop]
  have i: "rtype_candidates (RefStats_init H) = rtype_candidates_empty H"
    "num_invoke_super_removed (RefStats_init H) = 0"
    by (simp_all add: RefStats_init_def)
  have p: "(rtype_candidates lstats, rdom') =
         (if specialize_rtype
          then spec_collected_rtypes H (type_inference H (method_ref m) code) (method_ref m) 0
                 code (rtype_candidates_empty H, rtype_domain_bottom H)
          else (rtype_candidates_empty H, rtype_domain_bottom H))"
    using c i by simp
  have q: "rtype_candidates stats
             = collect_specializable_rtype H (rtype_candidates lstats) (method_ref m) rdom'"
    "num_invoke_super_removed stats = num_invoke_super_removed lstats"
    using stats by simp_all
  have a: "rtype_candidates stats =
           (if specialize_rtype
            then collect_specializable_rtype H
                   (fst (spec_collected_rtypes H (type_inference H (method_ref m) code)
                           (method_ref m) 0 code
                           (rtype_candidates_empty H, rtype_domain_bottom H)))
                   (method_ref m)
                   (snd (spec_collected_rtypes H (type_inference H (method_ref m) code)
                           (method_ref m) 0 code
                           (rtype_candidates_empty H, rtype_domain_bottom H)))
            else collect_specializable_rtype H (rtype_candidates_empty H) (method_ref m)
                   (rtype_domain_bottom H))"
  proof (cases specialize_rtype)
    case True
    with p have "spec_collected_rtypes H (type_inference H (method_ref m) code) (method_ref m) 0
                   code (rtype_candidates_empty H, rtype_domain_bottom H)
                 = (rtype_candidates lstats, rdom')"
      by simp
    with True q show ?thesis by simp
  next
    case False
    with p q show ?thesis by simp
  qed
  have b: "\<not> desuperify \<longrightarrow>
               num_invoke_super_removed stats = 0
               \<and> (\<exists>code'. meth' = Some (m\<lparr>get_code := Some code'\<rparr>)
                     \<and> length code' = length code
                     \<and> (\<forall>i<length code. insn_opcode (code ! i) = OPCODE_INVOKE_SUPER
                            \<longrightarrow> code' ! i = code ! i))"
    using c i q meth' by auto
  show ?thesis using a b by blast
qed

lemma walk_methods_pointwise:
  "walk_methods f add ms acc tbl = Inr (ms', acc', tbl')
   \<Longrightarrow> length ms' = length ms
       \<and> (\<forall>i<length ms. \<exists>t local_stats t'. f (ms ! i) t = Inr (local_stats, ms' ! i, t'))"
proof (induction ms arbitrary: acc tbl ms')
  case Nil
  then show ?case by simp
next
  case (Cons m rest)
  from Cons.prems obtain local_stats m1 tbl1 rest1 where
    step: "f m tbl = Inr (local_stats, m1, tbl1)"
    and tail: "walk_methods f add rest (add acc local_stats) tbl1 = Inr (rest1, acc', tbl')"
    and ms': "ms' = m1 # rest1"
    by (auto split: sum.splits prod.splits)
  from Cons.IH[OF tail] have len: "length rest1 = length rest"
    and ih: "\<forall>i<length rest. \<exists>t local_stats t'.
               f (rest ! i) t = Inr (local_stats, rest1 ! i, t')"
    by blast+
  have "\<exists>t local_stats t'. f ((m # rest) ! i) t = Inr (local_stats, (m1 # rest1) ! i, t')"
    if "i < length (m # rest)" for i
  proof (cases i)
    case 0
    then show ?thesis using step by auto
  next
    case (Suc j)
    then show ?thesis using ih that by simp
  qed
  then show ?case using len ms' by simp
qed

lemma first_walk_unfolded:
  "first_walk H P =
     (\<lambda>m t. case resolve_refs H P (Some m) t of
               Inl e \<Rightarrow> Inl e
             | Inr (local_stats, m1, tbl1) \<Rightarrow>
                 (case refine_virtual_callsites H P tbl1 (Some (walked m m1)) (m_desuperify P)
                         (m_specialize_rtype P) of
                    Inl e \<Rightarrow> Inl e
                  | Inr (stats2, m2) \<Rightarrow>
                      Inr (RefStats_add H local_stats stats2, walked (walked m m1) m2, tbl1)))"
  by (intro ext) (simp add: first_walk_def)

lemma second_walk_unfolded:
  "second_walk H P =
     (\<lambda>m t. case refine_virtual_callsites H P t (Some m) False False of
               Inl e \<Rightarrow> Inl e
             | Inr (local_stats, m') \<Rightarrow> Inr (local_stats, walked m m', t))"
  by (intro ext) (simp add: second_walk_def)

text \<open>
  C8. With \<open>specialize_rtype\<close> enabled (and the API surface of the minimum SDK set, which
  \<^verbatim>\<open>run_pass\<close> asserts), \<^verbatim>\<open>run_pass\<close> is three phases in a row. The first walk runs
  \<^verbatim>\<open>resolve_refs\<close> and then \<^verbatim>\<open>refine_virtual_callsites\<close> with collection on, over every
  method; the candidates of a method are what the collector makes of the inferred types
  of the sources of its \<^verbatim>\<open>return-object\<close> instructions, joined in order from bottom.
  Then the signatures are specialized from the candidates of the whole walk. Then
  \<^verbatim>\<open>refine_virtual_callsites\<close> runs again over every method of the specialized scope
  with \<open>desuperify = false\<close> and \<open>specialize_rtype = false\<close>: in that walk no inferred
  return type is collected (the collector's final call sees the empty candidates and
  the bottom type), no \<^verbatim>\<open>invoke-super\<close> is touched and \<open>num_invoke_super_removed\<close>
  stays zero. A walk hands every method of the scope, in order, to its function and
  keeps what the function returns for it.
\<close>

theorem run_pass_specialize_rtype:
  "(m_specialize_rtype P \<and> m_min_sdk_api P \<noteq> None
     \<longrightarrow> run_pass H RS P scope tbl mgr =
          (case walk_methods
                  (\<lambda>m t. case resolve_refs H P (Some m) t of
                            Inl e \<Rightarrow> Inl e
                          | Inr (local_stats, m1, tbl1) \<Rightarrow>
                              (case refine_virtual_callsites H P tbl1 (Some (walked m m1))
                                      (m_desuperify P) True of
                                 Inl e \<Rightarrow> Inl e
                               | Inr (stats2, m2) \<Rightarrow>
                                   Inr (RefStats_add H local_stats stats2,
                                        walked (walked m m1) m2, tbl1)))
                  (RefStats_add H) scope (RefStats_init H) tbl of
             Inl e \<Rightarrow> Inl e
           | Inr (scope1, stats, tbl1) \<Rightarrow>
               (case specialize_rtypes RS (rtype_candidates stats) scope1 tbl1 of
                  (scope2, tbl2, H2) \<Rightarrow>
                    (case walk_methods
                            (\<lambda>m t. case refine_virtual_callsites H2 P t (Some m) False False of
                                      Inl e \<Rightarrow> Inl e
                                    | Inr (local_stats, m') \<Rightarrow>
                                        Inr (local_stats, walked m m', t))
                            (RefStats_add H2) scope2 (RefStats_init H2) tbl2 of
                       Inl e \<Rightarrow> Inl e
                     | Inr (scope3, stats2, tbl3) \<Rightarrow>
                         Inr (scope3, tbl3,
                              RefStats_print H2 stats2
                                (rs_print_stats RS (rtype_candidates stats) scope1
                                   (RefStats_print H stats mgr)))))))
   \<and> (refine_virtual_callsites H P tbl (Some m) desuperify True = Inr (mstats, meth')
      \<and> get_code m = Some code
     \<longrightarrow> rtype_candidates mstats
           = collect_specializable_rtype H
               (fst (spec_collected_rtypes H (type_inference H (method_ref m) code)
                       (method_ref m) 0 code (rtype_candidates_empty H, rtype_domain_bottom H)))
               (method_ref m)
               (snd (spec_collected_rtypes H (type_inference H (method_ref m) code)
                       (method_ref m) 0 code (rtype_candidates_empty H, rtype_domain_bottom H))))
   \<and> (refine_virtual_callsites H P tbl (Some m) False False = Inr (rstats, rmeth)
      \<and> get_code m = Some code
     \<longrightarrow> rtype_candidates rstats
           = collect_specializable_rtype H (rtype_candidates_empty H) (method_ref m)
               (rtype_domain_bottom H)
         \<and> num_invoke_super_removed rstats = 0
         \<and> (\<exists>code'. rmeth = Some (m\<lparr>get_code := Some code'\<rparr>)
               \<and> length code' = length code
               \<and> (\<forall>i<length code. insn_opcode (code ! i) = OPCODE_INVOKE_SUPER
                      \<longrightarrow> code' ! i = code ! i)))
   \<and> (walk_methods f add ms acc tbl = Inr (ms', acc', tbl')
     \<longrightarrow> length ms' = length ms
         \<and> (\<forall>i<length ms. \<exists>t local_stats t'.
               f (ms ! i) t = Inr (local_stats, ms' ! i, t')))"
proof (intro conjI impI)
  assume a: "m_specialize_rtype P \<and> m_min_sdk_api P \<noteq> None"
  then have s: "m_specialize_rtype P = True"
    by simp
  have fw: "first_walk H P =
     (\<lambda>m t. case resolve_refs H P (Some m) t of
               Inl e \<Rightarrow> Inl e
             | Inr (local_stats, m1, tbl1) \<Rightarrow>
                 (case refine_virtual_callsites H P tbl1 (Some (walked m m1)) (m_desuperify P)
                         True of
                    Inl e \<Rightarrow> Inl e
                  | Inr (stats2, m2) \<Rightarrow>
                      Inr (RefStats_add H local_stats stats2, walked (walked m m1) m2, tbl1)))"
    unfolding first_walk_unfolded s by (rule refl)
  from a show "run_pass H RS P scope tbl mgr =
          (case walk_methods
                  (\<lambda>m t. case resolve_refs H P (Some m) t of
                            Inl e \<Rightarrow> Inl e
                          | Inr (local_stats, m1, tbl1) \<Rightarrow>
                              (case refine_virtual_callsites H P tbl1 (Some (walked m m1))
                                      (m_desuperify P) True of
                                 Inl e \<Rightarrow> Inl e
                               | Inr (stats2, m2) \<Rightarrow>
                                   Inr (RefStats_add H local_stats stats2,
                                        walked (walked m m1) m2, tbl1)))
                  (RefStats_add H) scope (RefStats_init H) tbl of
             Inl e \<Rightarrow> Inl e
           | Inr (scope1, stats, tbl1) \<Rightarrow>
               (case specialize_rtypes RS (rtype_candidates stats) scope1 tbl1 of
                  (scope2, tbl2, H2) \<Rightarrow>
                    (case walk_methods
                            (\<lambda>m t. case refine_virtual_callsites H2 P t (Some m) False False of
                                      Inl e \<Rightarrow> Inl e
                                    | Inr (local_stats, m') \<Rightarrow>
                                        Inr (local_stats, walked m m', t))
                            (RefStats_add H2) scope2 (RefStats_init H2) tbl2 of
                       Inl e \<Rightarrow> Inl e
                     | Inr (scope3, stats2, tbl3) \<Rightarrow>
                         Inr (scope3, tbl3,
                              RefStats_print H2 stats2
                                (rs_print_stats RS (rtype_candidates stats) scope1
                                   (RefStats_print H stats mgr))))))"
    unfolding run_pass_def fw second_walk_unfolded
    by (auto simp: Let_def split: sum.splits prod.splits)
next
  assume "refine_virtual_callsites H P tbl (Some m) desuperify True = Inr (mstats, meth')
      \<and> get_code m = Some code"
  then have "refine_virtual_callsites H P tbl (Some m) desuperify True = Inr (mstats, meth')"
    and "get_code m = Some code"
    by simp_all
  from refine_virtual_callsites_collects[OF this]
  show "rtype_candidates mstats
           = collect_specializable_rtype H
               (fst (spec_collected_rtypes H (type_inference H (method_ref m) code)
                       (method_ref m) 0 code (rtype_candidates_empty H, rtype_domain_bottom H)))
               (method_ref m)
               (snd (spec_collected_rtypes H (type_inference H (method_ref m) code)
                       (method_ref m) 0 code (rtype_candidates_empty H, rtype_domain_bottom H)))"
    by simp
next
  assume "refine_virtual_callsites H P tbl (Some m) False False = Inr (rstats, rmeth)
      \<and> get_code m = Some code"
  then have "refine_virtual_callsites H P tbl (Some m) False False = Inr (rstats, rmeth)"
    and "get_code m = Some code"
    by simp_all
  from refine_virtual_callsites_collects[OF this]
  show "rtype_candidates rstats
           = collect_specializable_rtype H (rtype_candidates_empty H) (method_ref m)
               (rtype_domain_bottom H)"
    and "num_invoke_super_removed rstats = 0"
    and "\<exists>code'. rmeth = Some (m\<lparr>get_code := Some code'\<rparr>)
               \<and> length code' = length code
               \<and> (\<forall>i<length code. insn_opcode (code ! i) = OPCODE_INVOKE_SUPER
                      \<longrightarrow> code' ! i = code ! i)"
    by simp_all
next
  assume "walk_methods f add ms acc tbl = Inr (ms', acc', tbl')"
  from walk_methods_pointwise[OF this]
  show "length ms' = length ms"
    and "\<forall>i<length ms. \<exists>t local_stats t'. f (ms ! i) t = Inr (local_stats, ms' ! i, t')"
    by blast+
qed

theorem run_pass_specialize_rtype_witness:
  "m_specialize_rtype (ex_P False (Some (\<lambda>m. True)))
   \<and> m_min_sdk_api (ex_P False (Some (\<lambda>m. True))) \<noteq> None
   \<and> (case run_pass (ex_H (Some ex_Derived_m) (Some ''LDerived;'')) ex_RS
              (ex_P False (Some (\<lambda>m. True)))
              [\<lparr>method_ref = ex_caller,
                get_code = Some [ex_insn OPCODE_INVOKE_VIRTUAL ex_Base_m,
                                 ex_insn OPCODE_RETURN_OBJECT ex_Base_m]\<rparr>]
              ex_tbl (\<lambda>name. 0) of
         Inl e \<Rightarrow> False
       | Inr (scope', tbl', mgr') \<Rightarrow>
           scope' = [\<lparr>method_ref = ex_caller,
                      get_code = Some [ex_insn OPCODE_INVOKE_VIRTUAL ex_Derived_m,
                                       ex_insn OPCODE_RETURN_OBJECT ex_Base_m]\<rparr>]
           \<and> tbl' = set_public ex_tbl ''LDerived;''
           \<and> mgr' ''method_refs_resolved'' = 1
           \<and> mgr' ''num_rtype_specialization_candidates'' = 1
           \<and> mgr' ''num_rtype_specialized'' = 1
           \<and> mgr' ''num_invoke_super_removed'' = 0)"
  using run_pass_specialize_rtype
    [where H = "ex_H (Some ex_Derived_m) (Some ''LDerived;'')" and RS = ex_RS
       and P = "ex_P False (Some (\<lambda>m. True))"
       and scope = "[\<lparr>method_ref = ex_caller,
                       get_code = Some [ex_insn OPCODE_INVOKE_VIRTUAL ex_Base_m,
                                        ex_insn OPCODE_RETURN_OBJECT ex_Base_m]\<rparr>]"
       and tbl = ex_tbl and mgr = "\<lambda>name. 0"]
  by (simp add: resolver_defs ex_defs run_pass_def first_walk_def second_walk_def
        walked_def RefStats_add_def RefStats_print_def incr_metric_def)

section \<open>The results of the type checker (C9)\<close>

text \<open>
  C9. Calling \<^verbatim>\<open>good()\<close>, \<^verbatim>\<open>fail()\<close> or \<^verbatim>\<open>what()\<close> on a checker that has not completed
  \<^verbatim>\<open>run()\<close> fails the assertion of \<^verbatim>\<open>check_completion\<close>, whose message names the
  method being checked. A new checker has not completed and holds the verdict of a
  method without errors, and \<^verbatim>\<open>verify_moves()\<close> and \<^verbatim>\<open>check_no_overwrite_this()\<close> keep
  both. After \<^verbatim>\<open>run()\<close> on such a checker, \<^verbatim>\<open>what()\<close> returns the description of the
  first type error met, or exactly \<open>OK\<close> when there was none, and \<^verbatim>\<open>good()\<close> says
  whether there was none; running again changes nothing. \<^verbatim>\<open>good()\<close> and \<^verbatim>\<open>fail()\<close> of
  any completed checker are complementary.
\<close>

theorem IRTypeChecker_result_interface:
  "(\<not> m_complete chk \<longrightarrow>
      good chk = Inl (AssertionFailure (''The type checker did not run on method ''
                        @ m_dex_method_name chk @ ''.'' @ [CHR 0x0A]))
    \<and> fail chk = Inl (AssertionFailure (''The type checker did not run on method ''
                        @ m_dex_method_name chk @ ''.'' @ [CHR 0x0A]))
    \<and> what chk = Inl (AssertionFailure (''The type checker did not run on method ''
                        @ m_dex_method_name chk @ ''.'' @ [CHR 0x0A])))
   \<and> \<not> m_complete (IRTypeChecker_new name validate_access)
   \<and> m_good (IRTypeChecker_new name validate_access)
   \<and> m_what (IRTypeChecker_new name validate_access) = ''OK''
   \<and> m_complete (verify_moves chk) = m_complete chk
   \<and> m_good (verify_moves chk) = m_good chk
   \<and> m_what (verify_moves chk) = m_what chk
   \<and> m_complete (check_no_overwrite_this chk) = m_complete chk
   \<and> m_good (check_no_overwrite_this chk) = m_good chk
   \<and> m_what (check_no_overwrite_this chk) = m_what chk
   \<and> (\<not> m_complete chk \<and> m_good chk \<and> m_what chk = ''OK'' \<longrightarrow>
        what (run errs chk) = Inr (case errs of [] \<Rightarrow> ''OK'' | e # later \<Rightarrow> e)
      \<and> good (run errs chk) = Inr (errs = [])
      \<and> fail (run errs chk) = Inr (errs \<noteq> []))
   \<and> m_complete (run errs chk)
   \<and> run errs' (run errs chk) = run errs chk
   \<and> (m_complete chk \<longrightarrow> (\<exists>b. good chk = Inr b \<and> fail chk = Inr (\<not> b)))"
  by (auto simp: good_def fail_def what_def check_completion_def run_def IRTypeChecker_new_def
           verify_moves_def check_no_overwrite_this_def
           split: list.splits)

theorem IRTypeChecker_result_interface_witness:
  "\<not> m_complete (IRTypeChecker_new ''LFoo;.bar:()V'' False)
   \<and> what (IRTypeChecker_new ''LFoo;.bar:()V'' False)
       = Inl (AssertionFailure
                (''The type checker did not run on method LFoo;.bar:()V.'' @ [CHR 0x0A]))
   \<and> m_complete (run [''first error'', ''second error'']
                   (IRTypeChecker_new ''LFoo;.bar:()V'' False))
   \<and> what (run [''first error'', ''second error''] (IRTypeChecker_new ''LFoo;.bar:()V'' False))
       = Inr ''first error''
   \<and> good (run [''first error'', ''second error''] (IRTypeChecker_new ''LFoo;.bar:()V'' False))
       = Inr False
   \<and> fail (run [''first error'', ''second error''] (IRTypeChecker_new ''LFoo;.bar:()V'' False))
       = Inr True
   \<and> what (run [] (verify_moves (IRTypeChecker_new ''LFoo;.bar:()V'' False))) = Inr ''OK''
   \<and> good (run [] (verify_moves (IRTypeChecker_new ''LFoo;.bar:()V'' False))) = Inr True"
  using IRTypeChecker_result_interface
    [where chk = "IRTypeChecker_new ''LFoo;.bar:()V'' False" and name = "''LFoo;.bar:()V''"
       and validate_access = False and errs = "[''first error'', ''second error'']"]
    IRTypeChecker_result_interface
    [where chk = "verify_moves (IRTypeChecker_new ''LFoo;.bar:()V'' False)"
       and name = "''LFoo;.bar:()V''" and validate_access = False and errs = "[]"]
  by (simp add: IRTypeChecker_new_def run_def verify_moves_def)

section \<open>The owning class of a resolved method (C10)\<close>

text \<open>
  C10. In \<^verbatim>\<open>resolve_method_refs\<close>, when the resolved definition differs from the
  reference and passes the gates on external definitions, a null owning class is
  dereferenced: the only return before the rewrite is the one for a non-public external
  class, which needs a non-null class.
\<close>

theorem resolve_method_refs_owning_class:
  assumes "has_method insn"
    and "resolve_method H (insn_method insn) (opcode_to_search H insn) caller = Some mdef"
    and "mdef \<noteq> insn_method insn"
    and "\<not> method_is_external mdef
         \<or> (m_refine_to_external P \<and> min_sdk_has_method P mdef = Inr True)"
  shows "resolve_method_refs H P caller insn stats tbl =
     (case type_class' tbl (method_class mdef) of
        None \<Rightarrow> Inl NullPointerDereference
      | Some cls \<Rightarrow>
          if cls_is_external cls \<and> \<not> cls_is_public cls then Inr (insn, stats, tbl)
          else Inr (insn\<lparr>insn_method := mdef\<rparr>,
                    stats\<lparr>num_mref_resolved := num_mref_resolved stats + 1\<rparr>,
                    if cls_is_public cls then tbl else set_public tbl (method_class mdef)))"
  using assms
  by (auto simp: resolve_method_refs_def Let_def split: option.splits sum.splits)

theorem resolve_method_refs_owning_class_witness:
  "has_method (ex_insn OPCODE_INVOKE_STATIC (ex_method ''LDerived;'' ''g'' False False False))
   \<and> type_class' ex_tbl ''LGone;'' = None
   \<and> resolve_method_refs (ex_H (Some (ex_method ''LGone;'' ''g'' True False False)) None)
        (ex_P False None) ex_caller
        (ex_insn OPCODE_INVOKE_STATIC (ex_method ''LDerived;'' ''g'' False False False))
        ex_stats ex_tbl
      = Inl NullPointerDereference"
  using resolve_method_refs_owning_class
    [where insn = "ex_insn OPCODE_INVOKE_STATIC (ex_method ''LDerived;'' ''g'' False False False)"
       and H = "ex_H (Some (ex_method ''LGone;'' ''g'' True False False)) None"
       and mdef = "ex_method ''LGone;'' ''g'' True False False"
       and P = "ex_P False None" and caller = ex_caller and stats = ex_stats and tbl = ex_tbl]
  by (simp add: ex_defs has_method_def)

end
